theory Spec2Isabelle
  imports Main "HOL-Library.Word"
begin

unbundle bit_operations_syntax

section \<open>The NetBIOS session layer of node-netbios-session\<close>

text \<open>
  The development embeds the session engine of the repository: the event-emitter
  version of the session (constants, header codec, read pump, handshake handlers,
  \<^verbatim>\<open>write\<close>, \<^verbatim>\<open>pause\<close>/\<^verbatim>\<open>resume\<close>) and the chunking write path
  \<^verbatim>\<open>_write\<close>/\<^verbatim>\<open>_writeChunk\<close>/\<^verbatim>\<open>_writeFlow\<close> of the duplex-stream version in
  \<^verbatim>\<open>session.js\<close>.  Buffers are lists of bytes, JavaScript numbers that hold lengths
  are integers, exceptions are values of a sum type, and everything the code does to
  its socket, its listeners and its callbacks is recorded in an explicit trace.
\<close>

subsection \<open>Constants and tables\<close>

type_synonym byte = "8 word"

text \<open>The \<^verbatim>\<open>Error\<close> objects the module creates.\<close>

datatype err =
    MessageTooLong nat
  | MalformedNegativeResponse
  | ConnectionFailed string
  | AttachAlreadyActive
  | NameError string

text \<open>
  What can be thrown: the two exceptions of the runtime, and an \<^verbatim>\<open>Error\<close> object
  that was emitted as \<^verbatim>\<open>'error'\<close> while no listener was registered for it.
\<close>

datatype exn = TypeError | AssertionError | Unhandled err

datatype frame_type =
  Message | Request | PositiveResponse | NegativeResponse | RetargetResponse | KeepAlive

text \<open>The three keys of \<^verbatim>\<open>VALID_TYPES\<close>; \<^verbatim>\<open>ss.mode === null\<close> is \<open>None\<close>.\<close>

datatype mode = EstablishingIn | EstablishingOut | Established

text \<open>\<^verbatim>\<open>VALID_TYPES[mode][type]\<close>, where \<^verbatim>\<open>type\<close> is a type string or undefined.\<close>

fun VALID_TYPES :: "mode \<Rightarrow> frame_type option \<Rightarrow> bool" where
  "VALID_TYPES EstablishingIn (Some Request) = True"
| "VALID_TYPES EstablishingOut (Some PositiveResponse) = True"
| "VALID_TYPES EstablishingOut (Some NegativeResponse) = True"
| "VALID_TYPES Established (Some Message) = True"
| "VALID_TYPES Established (Some KeepAlive) = True"
| "VALID_TYPES _ _ = False"

definition DEFAULT_PORT :: nat where
  "DEFAULT_PORT = 139"

definition TYPE_TO_STRING :: "byte \<Rightarrow> frame_type option" where
  "TYPE_TO_STRING t =
     (if t = 0x00 then Some Message
      else if t = 0x81 then Some Request
      else if t = 0x82 then Some PositiveResponse
      else if t = 0x83 then Some NegativeResponse
      else if t = 0x84 then Some RetargetResponse
      else if t = 0x85 then Some KeepAlive
      else None)"

fun TYPE_FROM_STRING :: "frame_type \<Rightarrow> int" where
  "TYPE_FROM_STRING Message = 0x00"
| "TYPE_FROM_STRING Request = 0x81"
| "TYPE_FROM_STRING PositiveResponse = 0x82"
| "TYPE_FROM_STRING NegativeResponse = 0x83"
| "TYPE_FROM_STRING RetargetResponse = 0x84"
| "TYPE_FROM_STRING KeepAlive = 0x85"

definition FLAGS_E_MASK :: byte where
  "FLAGS_E_MASK = 0x80"

definition FLAGS_RESERVED_MASK :: byte where
  "FLAGS_RESERVED_MASK = 0x7f"

definition ERROR_CODE_TO_STRING :: "byte \<Rightarrow> string option" where
  "ERROR_CODE_TO_STRING c =
     (if c = 0x80 then Some ''Not listening on called name''
      else if c = 0x81 then Some ''Not listening for calling name''
      else if c = 0x82 then Some ''Called name not present''
      else if c = 0x83 then Some ''Called name present, but insufficient resources''
      else if c = 0x8f then Some ''Unspecified error''
      else None)"

text \<open>The own properties of the object literal \<^verbatim>\<open>ERROR_CODE_FROM_STRING\<close>.\<close>

definition ERROR_CODE_FROM_STRING :: "(string \<times> int) list" where
  "ERROR_CODE_FROM_STRING =
     [(''Not listening on called name'', 0x80),
      (''Not listening for calling name'', 0x81),
      (''Called name not present'', 0x82),
      (''Called name present, but insufficient resources'', 0x83),
      (''Unspecified error'', 0x8f)]"

text \<open>\<^verbatim>\<open>1 << 16\<close>, \<^verbatim>\<open>(1 << 17) - 1\<close> and \<^verbatim>\<open>4\<close>.\<close>

definition EXTENSION_LENGTH :: nat where
  "EXTENSION_LENGTH = 2 ^ 16"

definition MAX_TRAILER_LENGTH :: nat where
  "MAX_TRAILER_LENGTH = 2 ^ 17 - 1"

definition HEADER_LENGTH :: nat where
  "HEADER_LENGTH = 4"

subsection \<open>Buffer accessors\<close>

text \<open>
  \<^verbatim>\<open>buf.writeUInt8(value, offset)\<close> and \<^verbatim>\<open>buf.writeUInt16BE(value, offset)\<close>
  without \<^verbatim>\<open>noAssert\<close>: the value must be a number that fits the field, otherwise
  the call throws.  The result is the bytes written.
\<close>

definition writeUInt8 :: "int \<Rightarrow> exn + byte list" where
  "writeUInt8 v = (if 0 \<le> v \<and> v \<le> 0xff then Inr [word_of_int v] else Inl AssertionError)"

definition writeUInt16BE :: "int \<Rightarrow> exn + byte list" where
  "writeUInt16BE v =
     (if 0 \<le> v \<and> v \<le> 0xffff
      then Inr [word_of_int (v div 256), word_of_int (v mod 256)]
      else Inl AssertionError)"

definition readUInt8 :: "byte list \<Rightarrow> nat \<Rightarrow> byte" where
  "readUInt8 chunk off = chunk ! off"

definition readUInt16BE :: "byte list \<Rightarrow> nat \<Rightarrow> nat" where
  "readUInt16BE chunk off = unat (chunk ! off) * 256 + unat (chunk ! (off + 1))"

subsection \<open>The header codec\<close>

text \<open>
  \<^verbatim>\<open>_packHeader(buf, offset, typeString, length)\<close>, for a fresh buffer and offset 0:
  the four bytes it writes, or the exception of the first write that fails.
\<close>

definition packHeader :: "frame_type \<Rightarrow> int \<Rightarrow> exn + byte list" where
  "packHeader typeString len =
     (case writeUInt8 (TYPE_FROM_STRING typeString) of
        Inl e \<Rightarrow> Inl e
      | Inr b0 \<Rightarrow>
          (let flags = (if len \<ge> int EXTENSION_LENGTH then FLAGS_E_MASK else 0);
               len' = (if len \<ge> int EXTENSION_LENGTH then len - int EXTENSION_LENGTH else len)
           in case writeUInt8 (uint flags) of
                Inl e \<Rightarrow> Inl e
              | Inr b1 \<Rightarrow>
                  (case writeUInt16BE len' of
                     Inl e \<Rightarrow> Inl e
                   | Inr b23 \<Rightarrow> Inr (b0 @ b1 @ b23))))"

text \<open>
  The decoding that \<^verbatim>\<open>_readHeader\<close> performs on the 4-byte chunk it has read: the
  type looked up in \<^verbatim>\<open>TYPE_TO_STRING\<close> (undefined for an unknown byte) and the 16-bit
  length, plus \<^verbatim>\<open>EXTENSION_LENGTH\<close> when the extension flag is set.
\<close>

definition decodeHeader :: "byte list \<Rightarrow> frame_type option \<times> nat" where
  "decodeHeader chunk =
     (let t = readUInt8 chunk 0;
          ty = TYPE_TO_STRING t;
          flags = readUInt8 chunk 1;
          len = readUInt16BE chunk 2
      in (ty, if flags AND FLAGS_E_MASK \<noteq> 0 then len + EXTENSION_LENGTH else len))"

subsection \<open>JavaScript values of a table lookup\<close>

text \<open>
  \<^verbatim>\<open>ERROR_CODE_FROM_STRING[errorString]\<close> is a property lookup on an object literal:
  it finds the literal's own properties and, failing that, the properties every object
  inherits from \<^verbatim>\<open>Object.prototype\<close>, whose values are functions or objects.  All
  other keys (\<^verbatim>\<open>undefined\<close> and \<^verbatim>\<open>null\<close> among them) give undefined.  The other
  tables of the module are only indexed with bytes and with strings the module itself
  produces, none of which names an inherited property.
\<close>

datatype jsval = Undefined | Number int | Inherited

fun truthy :: "jsval \<Rightarrow> bool" where
  "truthy Undefined = False"
| "truthy (Number n) = (n \<noteq> 0)"
| "truthy Inherited = True"

definition Object_prototype :: "string list" where
  "Object_prototype =
     [''constructor'', ''toString'', ''toLocaleString'', ''valueOf'', ''hasOwnProperty'',
      ''isPrototypeOf'', ''propertyIsEnumerable'', ''__defineGetter__'', ''__defineSetter__'',
      ''__lookupGetter__'', ''__lookupSetter__'', ''__proto__'']"

text \<open>The argument is \<open>None\<close> when the caller passed no reason or \<^verbatim>\<open>null\<close>.\<close>

definition lookup_ERROR_CODE_FROM_STRING :: "string option \<Rightarrow> jsval" where
  "lookup_ERROR_CODE_FROM_STRING errorString =
     (case errorString of
        None \<Rightarrow> Undefined
      | Some s \<Rightarrow>
          (case map_of ERROR_CODE_FROM_STRING s of
             Some c \<Rightarrow> Number c
           | None \<Rightarrow> if s \<in> set Object_prototype then Inherited else Undefined))"

text \<open>\<^verbatim>\<open>buf.writeUInt8(value, offset)\<close> for an arbitrary value: a non-number throws.\<close>

definition writeUInt8_value :: "jsval \<Rightarrow> exn + byte list" where
  "writeUInt8_value v = (case v of Number n \<Rightarrow> writeUInt8 n | _ \<Rightarrow> Inl AssertionError)"

subsection \<open>Session state\<close>

text \<open>Which bound method \<^verbatim>\<open>ss.readFunc\<close> holds.\<close>

datatype read_func = ReadHeader | ReadTrailer

text \<open>\<^verbatim>\<open>ss.trailerType\<close>: a type string or \<^verbatim>\<open>'ignore'\<close>; \<^verbatim>\<open>null\<close> is \<open>None\<close>.\<close>

datatype trailer_type = Type frame_type | Ignore

text \<open>The result object of \<^verbatim>\<open>NBName.fromBuffer\<close> (the external name codec).\<close>

record nbname =
  error :: "string option"
  bytesRead :: nat
  name :: string

text \<open>
  A value passed as a completion callback of \<^verbatim>\<open>write\<close>: \<open>Some k\<close> is the function
  \<open>k\<close>, \<open>None\<close> is anything for which \<^verbatim>\<open>typeof callback === 'function'\<close> fails.
\<close>

type_synonym callback = "nat option"

text \<open>
  What an attach callback does, synchronously, with the request object it is given:
  nothing yet, \<^verbatim>\<open>request.accept()\<close>, or \<^verbatim>\<open>request.reject(reason)\<close>.
\<close>

datatype reaction = Later | AcceptNow | RejectNow "string option"

text \<open>
  The request object built by \<^verbatim>\<open>_handleRequest\<close>; \<open>accept\<close> and \<open>reject\<close> tell
  whether the property still holds its function (\<open>False\<close> once it is \<^verbatim>\<open>null\<close>).
\<close>

record request_obj =
  callTo :: nbname
  callFrom :: nbname
  accept :: bool
  reject :: bool

text \<open>The listeners the module registers with \<^verbatim>\<open>ss.socket.once('drain', ...)\<close>.\<close>

datatype drain_cont =
    DrainWriteMsg "byte list" callback
  | DrainDoDrain callback
  | DrainEnd

text \<open>What the session does to the outside world, in order.\<close>

datatype effect =
    SocketWrite "byte list" bool
  | SocketEnd
  | EmitConnect
  | EmitMessage "byte list"
  | EmitError err
  | EmitDrain
  | AttachCallbackError string
  | AttachCallbackRequest nbname nbname
  | NextTickAttachCallback err
  | ConnectCallback "err option"
  | NextTickConnectCallback string
  | NextTick nat "err option"

text \<open>
  The fields of \<^verbatim>\<open>NetbiosSessionState\<close> and \<^verbatim>\<open>ss.socket\<close> (\<open>True\<close> when not
  \<^verbatim>\<open>null\<close>), followed by the surroundings of the session: the request objects handed
  out, the bytes buffered in \<^verbatim>\<open>ss.inputStream\<close>, the sizes asked of
  \<^verbatim>\<open>ss.inputStream.read\<close> so far, the values the next calls of
  \<^verbatim>\<open>ss.socket.write\<close> will return (\<open>True\<close> once the list is used up), the
  \<^verbatim>\<open>'drain'\<close> listeners on the socket, the number of \<^verbatim>\<open>_doRead\<close> callbacks queued
  with \<^verbatim>\<open>process.nextTick\<close>, the number of \<^verbatim>\<open>_doRead\<close> listeners registered with
  \<^verbatim>\<open>once('readable')\<close>, whether the application's \<^verbatim>\<open>'message'\<close> listener calls
  \<^verbatim>\<open>pause()\<close> on a given message, whether an \<^verbatim>\<open>'error'\<close> listener is registered,
  and the trace of effects.
\<close>

record session =
  mode :: "mode option"
  direct :: bool
  autoAccept :: bool
  paused :: bool
  attachCallback :: "reaction option"
  connectCallback :: bool
  trailerType :: "trailer_type option"
  trailerLength :: nat
  readFunc :: read_func
  needDrain :: bool
  socket :: bool
  requests :: "request_obj list"
  inputStream :: "byte list"
  readRequests :: "nat list"
  flushPlan :: "bool list"
  drainListeners :: "drain_cont list"
  ticks :: nat
  readableListeners :: nat
  pauseOnMessage :: "byte list \<Rightarrow> bool"
  errorListener :: bool
  trace :: "effect list"

text \<open>
  \<^verbatim>\<open>ss.acceptDefault\<close>: the constructor assigns \<^verbatim>\<open>autoAccept\<close>, and nothing in the
  module ever assigns \<^verbatim>\<open>acceptDefault\<close>, so reading it yields undefined.
\<close>

definition acceptDefault :: "session \<Rightarrow> jsval" where
  "acceptDefault ss = Undefined"

record opts =
  opt_direct :: bool
  opt_autoAccept :: bool
  opt_paused :: bool

text \<open>\<^verbatim>\<open>new NetbiosSession(opts)\<close>, with the application's message listener.\<close>

definition NetbiosSession :: "opts \<Rightarrow> (byte list \<Rightarrow> bool) \<Rightarrow> session" where
  "NetbiosSession os listener =
     \<lparr> mode = None, direct = opt_direct os, autoAccept = opt_autoAccept os,
       paused = opt_paused os, attachCallback = None, connectCallback = False,
       trailerType = None, trailerLength = 0, readFunc = ReadHeader, needDrain = False,
       socket = False, requests = [], inputStream = [], readRequests = [], flushPlan = [],
       drainListeners = [], ticks = 0, readableListeners = 0, pauseOnMessage = listener,
       errorListener = False, trace = [] \<rparr>"

subsection \<open>Socket, stream and event primitives\<close>

definition log :: "effect \<Rightarrow> session \<Rightarrow> session" where
  "log e ss = ss\<lparr>trace := trace ss @ [e]\<rparr>"

text \<open>
  An operation on the session returns its result, or the exception it throws together
  with the session as the throw leaves it: what was assigned before stays assigned.
\<close>

type_synonym 'a result = "exn \<times> session + 'a"

text \<open>The application registers a listener: \<^verbatim>\<open>session.on('error', listener)\<close>.\<close>

definition on_error :: "session \<Rightarrow> session" where
  "on_error ss = ss\<lparr>errorListener := True\<rparr>"

text \<open>
  \<^verbatim>\<open>this.emit('error', error)\<close>: an event emitter with no \<^verbatim>\<open>'error'\<close> listener
  throws the error instead.
\<close>

definition emit_error :: "err \<Rightarrow> session \<Rightarrow> session result" where
  "emit_error e ss = (if errorListener ss then Inr (log (EmitError e) ss) else Inl (Unhandled e, ss))"

text \<open>
  A socket is given by the values its next calls of \<^verbatim>\<open>write\<close> return; once the
  list is used up every write is accepted.
\<close>

definition next_flush :: "bool list \<Rightarrow> bool" where
  "next_flush plan = (case plan of [] \<Rightarrow> True | b # _ \<Rightarrow> b)"

text \<open>\<^verbatim>\<open>ss.socket.write(buf)\<close>: a \<^verbatim>\<open>TypeError\<close> when \<^verbatim>\<open>ss.socket\<close> is \<^verbatim>\<open>null\<close>.\<close>

definition socket_write :: "byte list \<Rightarrow> session \<Rightarrow> (bool \<times> session) result" where
  "socket_write buf ss =
     (if \<not> socket ss then Inl (TypeError, ss)
      else (let flushed = next_flush (flushPlan ss)
            in Inr (flushed, ss\<lparr>flushPlan := tl (flushPlan ss),
                                 trace := trace ss @ [SocketWrite buf flushed]\<rparr>)))"

text \<open>
  \<^verbatim>\<open>ss.inputStream.read(n)\<close> on a stream that has not ended: the next \<open>n\<close> bytes
  when that many are buffered, \<^verbatim>\<open>null\<close> otherwise (and for \<open>n = 0\<close>).
\<close>

definition stream_read :: "nat \<Rightarrow> session \<Rightarrow> byte list option \<times> session" where
  "stream_read n ss =
     (if 0 < n \<and> n \<le> length (inputStream ss)
      then (Some (take n (inputStream ss)),
            ss\<lparr>inputStream := drop n (inputStream ss), readRequests := readRequests ss @ [n]\<rparr>)
      else (None, ss\<lparr>readRequests := readRequests ss @ [n]\<rparr>))"

subsection \<open>Session operations\<close>

text \<open>\<^verbatim>\<open>_doRead\<close> only queues its body with \<^verbatim>\<open>process.nextTick\<close>.\<close>

definition doRead :: "session \<Rightarrow> session" where
  "doRead ss = ss\<lparr>ticks := ticks ss + 1\<rparr>"

definition pause :: "session \<Rightarrow> session" where
  "pause ss = ss\<lparr>paused := True\<rparr>"

definition resume :: "session \<Rightarrow> session" where
  "resume ss = (if paused ss then doRead (ss\<lparr>paused := False\<rparr>) else ss)"

text \<open>The method \<^verbatim>\<open>end\<close>.\<close>

definition session_end :: "session \<Rightarrow> session" where
  "session_end ss =
     (if socket ss
      then (ss\<lparr>mode := None, paused := False, socket := False,
               trace := trace ss @ [SocketEnd]\<rparr>)
      else ss)"

definition established :: "session \<Rightarrow> session" where
  "established ss = log EmitConnect (ss\<lparr>mode := Some Established\<rparr>)"

definition sendPositiveResponse :: "session \<Rightarrow> session result" where
  "sendPositiveResponse ss =
     (case packHeader PositiveResponse 0 of
        Inl e \<Rightarrow> Inl (e, ss)
      | Inr buf \<Rightarrow>
          (case socket_write buf ss of
             Inl e \<Rightarrow> Inl e
           | Inr (flushed, ss') \<Rightarrow> Inr ss'))"

definition sendNegativeResponse :: "string option \<Rightarrow> session \<Rightarrow> session result" where
  "sendNegativeResponse errorString ss =
     (case packHeader NegativeResponse 1 of
        Inl e \<Rightarrow> Inl (e, ss)
      | Inr hdr \<Rightarrow>
          (let errorCode0 = lookup_ERROR_CODE_FROM_STRING errorString;
               errorCode = (if \<not> truthy errorCode0
                            then lookup_ERROR_CODE_FROM_STRING (Some ''Unspecified error'')
                            else errorCode0)
           in case writeUInt8_value errorCode of
                Inl e \<Rightarrow> Inl (e, ss)
              | Inr b \<Rightarrow>
                  (case socket_write (hdr @ b) ss of
                     Inl e \<Rightarrow> Inl e
                   | Inr (flushed, ss') \<Rightarrow>
                       if flushed then Inr (session_end ss')
                       else Inr (ss'\<lparr>drainListeners := drainListeners ss' @ [DrainEnd]\<rparr>))))"

definition doDrain :: "callback \<Rightarrow> session \<Rightarrow> session" where
  "doDrain cb ss =
     (let ss1 = (if needDrain ss then log EmitDrain (ss\<lparr>needDrain := False\<rparr>) else ss)
      in case cb of Some k \<Rightarrow> log (NextTick k None) ss1 | None \<Rightarrow> ss1)"

definition writeMsg :: "byte list \<Rightarrow> callback \<Rightarrow> session \<Rightarrow> (bool \<times> session) result" where
  "writeMsg msg cb ss =
     (case socket_write msg ss of
        Inl e \<Rightarrow> Inl e
      | Inr (flushed, ss') \<Rightarrow>
          if \<not> flushed
          then Inr (False, ss'\<lparr>needDrain := True,
                                drainListeners := drainListeners ss' @ [DrainDoDrain cb]\<rparr>)
          else Inr (True, doDrain cb ss'))"

text \<open>The method \<^verbatim>\<open>write\<close>.\<close>

definition session_write ::
  "byte list \<Rightarrow> callback \<Rightarrow> session \<Rightarrow> (bool \<times> session) result" where
  "session_write msg cb ss =
     (if length msg > MAX_TRAILER_LENGTH
      then (let e = MessageTooLong (length msg)
            in case emit_error e ss of
                 Inl x \<Rightarrow> Inl x
               | Inr ss1 \<Rightarrow>
                   Inr (True, case cb of Some k \<Rightarrow> log (NextTick k (Some e)) ss1
                              | None \<Rightarrow> ss1))
      else (case packHeader Message (int (length msg)) of
              Inl e \<Rightarrow> Inl (e, ss)
            | Inr buf \<Rightarrow>
                (case socket_write buf ss of
                   Inl e \<Rightarrow> Inl e
                 | Inr (flushed, ss') \<Rightarrow>
                     if \<not> flushed
                     then Inr (False, ss'\<lparr>needDrain := True,
                              drainListeners := drainListeners ss' @ [DrainWriteMsg msg cb]\<rparr>)
                     else writeMsg msg cb ss')))"

text \<open>
  The closures \<^verbatim>\<open>request.accept\<close> and \<^verbatim>\<open>request.reject\<close> of the \<open>i\<close>-th request
  object, invoked through the object: calling a property that is \<^verbatim>\<open>null\<close> is a
  \<^verbatim>\<open>TypeError\<close>.
\<close>

definition request_accept :: "nat \<Rightarrow> session \<Rightarrow> session result" where
  "request_accept i ss =
     (if i < length (requests ss) \<and> accept (requests ss ! i)
      then (case sendPositiveResponse (established ss) of
              Inl e \<Rightarrow> Inl e
            | Inr ss' \<Rightarrow>
                Inr (ss'\<lparr>requests :=
                      (requests ss')[i := (requests ss' ! i)\<lparr>accept := False, reject := False\<rparr>]\<rparr>))
      else Inl (TypeError, ss))"

definition request_reject :: "nat \<Rightarrow> string option \<Rightarrow> session \<Rightarrow> session result" where
  "request_reject i s ss =
     (if i < length (requests ss) \<and> reject (requests ss ! i)
      then (case sendNegativeResponse s ss of
              Inl e \<Rightarrow> Inl e
            | Inr ss' \<Rightarrow>
                Inr (ss'\<lparr>requests :=
                      (requests ss')[i := (requests ss' ! i)\<lparr>accept := False, reject := False\<rparr>]\<rparr>))
      else Inl (TypeError, ss))"

subsection \<open>Frame handlers\<close>

text \<open>
  \<^verbatim>\<open>_handleRequest\<close>.  The name codec \<^verbatim>\<open>NBName.fromBuffer\<close> is the parameter
  \<open>fromBuffer\<close>.  After a failed first decode the function reports the error and, as
  the source has no \<^verbatim>\<open>return\<close> there, goes on to the second name.
\<close>

definition handleRequest ::
  "(byte list \<Rightarrow> nat \<Rightarrow> nbname) \<Rightarrow> byte list \<Rightarrow> session \<Rightarrow> session result" where
  "handleRequest fromBuffer chunk ss =
     (let nbname1 = fromBuffer chunk 0;
          ss1 = (case error nbname1 of
                   Some e \<Rightarrow> if attachCallback ss \<noteq> None then log (AttachCallbackError e) ss else ss
                 | None \<Rightarrow> ss);
          callTo = nbname1;
          nbname2 = fromBuffer chunk (bytesRead callTo)
      in case error nbname2 of
           Some e \<Rightarrow>
             Inr (if attachCallback ss1 \<noteq> None then log (AttachCallbackError e) ss1 else ss1)
         | None \<Rightarrow>
             (let callFrom = nbname2
              in case attachCallback ss1 of
                   Some react \<Rightarrow>
                     (let i = length (requests ss1);
                          request = \<lparr>callTo = callTo, callFrom = callFrom,
                                     accept = True, reject = True\<rparr>;
                          ss2 = log (AttachCallbackRequest callTo callFrom)
                                  (ss1\<lparr>requests := requests ss1 @ [request]\<rparr>)
                      in case react of
                           Later \<Rightarrow> Inr ss2
                         | AcceptNow \<Rightarrow> request_accept i ss2
                         | RejectNow s \<Rightarrow> request_reject i s ss2)
                 | None \<Rightarrow>
                     if \<not> truthy (acceptDefault ss1)
                     then sendPositiveResponse (established ss1)
                     else sendNegativeResponse None ss1))"

text \<open>\<^verbatim>\<open>_handleMessage\<close>: the \<^verbatim>\<open>'message'\<close> event, and the listener's reaction.\<close>

definition handleMessage :: "byte list \<Rightarrow> session \<Rightarrow> session" where
  "handleMessage chunk ss =
     (let ss1 = log (EmitMessage chunk) ss
      in if pauseOnMessage ss1 chunk then pause ss1 else ss1)"

definition handlePositiveResponse :: "session \<Rightarrow> session" where
  "handlePositiveResponse ss =
     (if mode ss \<noteq> Some EstablishingOut then ss
      else (let cb = connectCallback ss;
                ss1 = established (ss\<lparr>connectCallback := False\<rparr>)
            in if cb then log (ConnectCallback None) ss1 else ss1))"

text \<open>
  \<^verbatim>\<open>_handleNegativeResponse\<close>.  \<^verbatim>\<open>chunk.readUInt8(0)\<close> throws on an empty chunk.
\<close>

definition handleNegativeResponse :: "byte list \<Rightarrow> session \<Rightarrow> session result" where
  "handleNegativeResponse chunk ss =
     (if mode ss \<noteq> Some EstablishingOut then Inr ss
      else (let cb = connectCallback ss;
                ss1 = ss\<lparr>connectCallback := False\<rparr>
            in if length chunk \<noteq> 1 \<and> cb
               then Inr (session_end (log (ConnectCallback (Some MalformedNegativeResponse)) ss1))
               else if chunk = [] then Inl (AssertionError, ss1)
               else (let errCode = readUInt8 chunk 0;
                         errString = (case ERROR_CODE_TO_STRING errCode of
                                        None \<Rightarrow> ''unknown error''
                                      | Some str \<Rightarrow> str);
                         ss2 = (if cb
                                then log (ConnectCallback (Some (ConnectionFailed errString))) ss1
                                else ss1)
                     in Inr (session_end ss2))))"

subsection \<open>The read pump\<close>

definition readTrailer ::
  "(byte list \<Rightarrow> nat \<Rightarrow> nbname) \<Rightarrow> session \<Rightarrow> (bool \<times> session) result" where
  "readTrailer fromBuffer ss =
     (case stream_read (trailerLength ss) ss of
        (None, ss1) \<Rightarrow> Inr (False, ss1)
      | (Some chunk, ss1) \<Rightarrow>
          (let ty = trailerType ss1;
               ss2 = ss1\<lparr>readFunc := ReadHeader, trailerType := None, trailerLength := 0\<rparr>
           in if ty = Some (Type Request)
              then (case handleRequest fromBuffer chunk ss2 of
                      Inl e \<Rightarrow> Inl e | Inr ss3 \<Rightarrow> Inr (True, ss3))
              else if ty = Some (Type Message)
              then Inr (True, handleMessage chunk ss2)
              else if ty = Some (Type NegativeResponse)
              then (case handleNegativeResponse chunk ss2 of
                      Inl e \<Rightarrow> Inl e | Inr ss3 \<Rightarrow> Inr (True, ss3))
              else Inr (True, ss2)))"

text \<open>
  \<^verbatim>\<open>_readHeader\<close>.  \<^verbatim>\<open>VALID_TYPES[ss.mode]\<close> is undefined when \<^verbatim>\<open>ss.mode\<close> is
  \<^verbatim>\<open>null\<close>, and indexing it throws.
\<close>

definition readHeader ::
  "(byte list \<Rightarrow> nat \<Rightarrow> nbname) \<Rightarrow> session \<Rightarrow> (bool \<times> session) result" where
  "readHeader fromBuffer ss =
     (case stream_read HEADER_LENGTH ss of
        (None, ss1) \<Rightarrow> Inr (False, ss1)
      | (Some chunk, ss1) \<Rightarrow>
          (case mode ss1 of
             None \<Rightarrow> Inl (TypeError, ss1)
           | Some m \<Rightarrow>
               (let ty0 = fst (decodeHeader chunk);
                    ty = (case ty0 of
                            Some t \<Rightarrow> if VALID_TYPES m ty0 then Type t else Ignore
                          | None \<Rightarrow> Ignore);
                    len = snd (decodeHeader chunk);
                    ss2 = ss1\<lparr>trailerType := Some ty, trailerLength := len\<rparr>
                in if len > 0
                   then readTrailer fromBuffer (ss2\<lparr>readFunc := ReadTrailer\<rparr>)
                   else (let ss3 = ss2\<lparr>trailerType := None, trailerLength := 0\<rparr>
                         in if ty = Type PositiveResponse
                            then Inr (True, handlePositiveResponse ss3)
                            else Inr (True, ss3)))))"

text \<open>\<^verbatim>\<open>ss.readFunc()\<close>.\<close>

definition readFunc_call ::
  "(byte list \<Rightarrow> nat \<Rightarrow> nbname) \<Rightarrow> session \<Rightarrow> (bool \<times> session) result" where
  "readFunc_call fromBuffer ss =
     (case readFunc ss of
        ReadHeader \<Rightarrow> readHeader fromBuffer ss
      | ReadTrailer \<Rightarrow> readTrailer fromBuffer ss)"

text \<open>
  The function that \<^verbatim>\<open>_doRead\<close> queued, run by the event loop (nothing happens when
  none is queued).
\<close>

definition run_tick :: "(byte list \<Rightarrow> nat \<Rightarrow> nbname) \<Rightarrow> session \<Rightarrow> session result" where
  "run_tick fromBuffer ss =
     (if ticks ss = 0 then Inr ss
      else (case readFunc_call fromBuffer (ss\<lparr>ticks := ticks ss - 1\<rparr>) of
              Inl e \<Rightarrow> Inl e
            | Inr (complete, ss1) \<Rightarrow>
                if mode ss1 = Some Established \<and> paused ss1 then Inr ss1
                else if \<not> complete
                then Inr (ss1\<lparr>readableListeners := readableListeners ss1 + 1\<rparr>)
                else Inr (doRead ss1)))"

text \<open>
  Bytes arrive on the wrapped socket: they are buffered, and \<^verbatim>\<open>'readable'\<close> runs
  every \<^verbatim>\<open>_doRead\<close> registered with \<^verbatim>\<open>once\<close>.
\<close>

definition socket_data :: "byte list \<Rightarrow> session \<Rightarrow> session" where
  "socket_data bytes ss =
     ss\<lparr>inputStream := inputStream ss @ bytes,
        ticks := ticks ss + readableListeners ss,
        readableListeners := 0\<rparr>"

text \<open>The socket emits \<^verbatim>\<open>'drain'\<close>: its \<^verbatim>\<open>once\<close> listeners run in order.\<close>

fun fire_drain :: "drain_cont list \<Rightarrow> session \<Rightarrow> session result" where
  "fire_drain [] ss = Inr ss"
| "fire_drain (DrainWriteMsg msg cb # ls) ss =
     (case writeMsg msg cb ss of Inl e \<Rightarrow> Inl e | Inr (flushed, ss') \<Rightarrow> fire_drain ls ss')"
| "fire_drain (DrainDoDrain cb # ls) ss = fire_drain ls (doDrain cb ss)"
| "fire_drain (DrainEnd # ls) ss = fire_drain ls (session_end ss)"

definition socket_drain :: "session \<Rightarrow> session result" where
  "socket_drain ss = fire_drain (drainListeners ss) (ss\<lparr>drainListeners := []\<rparr>)"

subsection \<open>Binding a transport\<close>

text \<open>
  \<^verbatim>\<open>attach(socket, callback)\<close>; the socket is given by the results its \<^verbatim>\<open>write\<close>
  will return.
\<close>

definition attach :: "bool list \<Rightarrow> reaction option \<Rightarrow> session \<Rightarrow> session" where
  "attach sock cb ss =
     (if (case mode ss of Some m \<Rightarrow> True | None \<Rightarrow> socket ss)
      then (if cb \<noteq> None then log (NextTickAttachCallback AttachAlreadyActive) ss else ss)
      else (let ss1 = ss\<lparr>socket := True, flushPlan := sock, drainListeners := [],
                          inputStream := []\<rparr>
            in if direct ss1 then doRead (established ss1)
               else doRead (ss1\<lparr>mode := Some EstablishingIn, attachCallback := cb\<rparr>)))"

text \<open>
  \<^verbatim>\<open>_sendRequest\<close>; each name is given by what its \<^verbatim>\<open>write\<close> method returns, an
  error or the bytes it puts into the buffer.
\<close>

definition sendRequest ::
  "string + byte list \<Rightarrow> string + byte list \<Rightarrow> bool \<Rightarrow> session \<Rightarrow> session result" where
  "sendRequest toName fromName cb ss =
     (case toName of
        Inl e \<Rightarrow> Inr (if cb then log (NextTickConnectCallback e) ss else ss)
      | Inr b1 \<Rightarrow>
          (case fromName of
             Inl e \<Rightarrow> Inr (if cb then log (NextTickConnectCallback e) ss else ss)
           | Inr b2 \<Rightarrow>
               (let trailerLen = length b1 + length b2
                in case packHeader Request (int trailerLen) of
                     Inl e \<Rightarrow> Inl (e, ss)
                   | Inr hdr \<Rightarrow>
                       (case socket_write (hdr @ b1 @ b2) (ss\<lparr>connectCallback := cb\<rparr>) of
                          Inl e \<Rightarrow> Inl e
                        | Inr (flushed, ss') \<Rightarrow> Inr ss'))))"

definition connectSocket ::
  "bool list \<Rightarrow> string + byte list \<Rightarrow> string + byte list \<Rightarrow> bool \<Rightarrow> session \<Rightarrow> session result"
  where
  "connectSocket sock fromName toName cb ss =
     (let ss1 = ss\<lparr>socket := True, flushPlan := sock, drainListeners := [],
                   inputStream := [], mode := Some EstablishingOut\<rparr>
      in if direct ss1
         then Inr (doRead (established (if cb then log (ConnectCallback None) ss1 else ss1)))
         else (case sendRequest toName fromName cb ss1 of
                 Inl e \<Rightarrow> Inl e
               | Inr ss2 \<Rightarrow> Inr (doRead ss2)))"

subsection \<open>Runs of a session\<close>

text \<open>
  What can happen to a session after it was bound: the event loop runs a queued
  \<^verbatim>\<open>_doRead\<close>, the socket delivers bytes or drains, or the application calls in.
\<close>

datatype action =
    Tick
  | SocketData "byte list"
  | SocketDrain
  | CallPause
  | CallResume
  | CallEnd
  | CallWrite "byte list" callback
  | CallAccept nat
  | CallReject nat "string option"
  | CallOnError

fun step :: "(byte list \<Rightarrow> nat \<Rightarrow> nbname) \<Rightarrow> action \<Rightarrow> session \<Rightarrow> session result" where
  "step fb Tick ss = run_tick fb ss"
| "step fb (SocketData bytes) ss = Inr (socket_data bytes ss)"
| "step fb SocketDrain ss = socket_drain ss"
| "step fb CallPause ss = Inr (pause ss)"
| "step fb CallResume ss = Inr (resume ss)"
| "step fb CallEnd ss = Inr (session_end ss)"
| "step fb (CallWrite msg cb) ss =
     (case session_write msg cb ss of Inl e \<Rightarrow> Inl e | Inr (flushed, ss') \<Rightarrow> Inr ss')"
| "step fb (CallAccept i) ss = request_accept i ss"
| "step fb (CallReject i s) ss = request_reject i s ss"
| "step fb CallOnError ss = Inr (on_error ss)"

fun run :: "(byte list \<Rightarrow> nat \<Rightarrow> nbname) \<Rightarrow> action list \<Rightarrow> session \<Rightarrow> session result" where
  "run fb [] ss = Inr ss"
| "run fb (a # as) ss = (case step fb a ss of Inl e \<Rightarrow> Inl e | Inr ss' \<Rightarrow> run fb as ss')"

text \<open>
  \<^verbatim>\<open>_initInputStream\<close> creates the input stream with this \<^verbatim>\<open>highWaterMark\<close>.
\<close>

definition highWaterMark :: nat where
  "highWaterMark = MAX_TRAILER_LENGTH + HEADER_LENGTH"

subsection \<open>The chunking write path of the duplex-stream version\<close>









subsection \<open>Outcomes and auxiliary notions for the statements\<close>

text \<open>The session an operation leaves behind, whether it returned or threw.\<close>

definition outcome :: "session result \<Rightarrow> session" where
  "outcome r = (case r of Inl (e, s) \<Rightarrow> s | Inr s \<Rightarrow> s)"

definition outcome2 :: "(bool \<times> session) result \<Rightarrow> session" where
  "outcome2 r = (case r of Inl (e, s) \<Rightarrow> s | Inr (b, s) \<Rightarrow> s)"

text \<open>
  The pending trailer length and every size asked of the input stream so far stay
  within the maximum trailer length.
\<close>

definition read_bounded :: "session \<Rightarrow> bool" where
  "read_bounded ss \<longleftrightarrow>
     trailerLength ss \<le> MAX_TRAILER_LENGTH
     \<and> list_all (\<lambda>n. n \<le> MAX_TRAILER_LENGTH) (readRequests ss)"

text \<open>The two fields that \<open>read_bounded\<close> looks at.\<close>

definition read_fields :: "session \<Rightarrow> nat \<times> nat list" where
  "read_fields ss = (trailerLength ss, readRequests ss)"

text \<open>A name codec that decodes every buffer, for the concrete runs below.\<close>

definition fromBuffer_any :: "byte list \<Rightarrow> nat \<Rightarrow> nbname" where
  "fromBuffer_any chunk off = \<lparr>error = None, bytesRead = 1, name = ''NAME''\<rparr>"

definition default_opts :: opts where
  "default_opts = \<lparr>opt_direct = False, opt_autoAccept = False, opt_paused = False\<rparr>"

definition never_pause :: "byte list \<Rightarrow> bool" where
  "never_pause msg = False"

text \<open>
  The session after a frame was consumed without any handler running: only the parser
  fields changed.  \<open>rest\<close> is what the input stream still holds and \<open>reqs\<close> the
  sizes that were asked of it.
\<close>

definition after_frame :: "session \<Rightarrow> byte list \<Rightarrow> nat list \<Rightarrow> session" where
  "after_frame ss rest reqs =
     ss\<lparr>inputStream := rest, readRequests := readRequests ss @ reqs,
        trailerType := None, trailerLength := 0, readFunc := ReadHeader\<rparr>"

text \<open>The session after the header of an ignored frame whose trailer has not arrived.\<close>

definition awaiting_trailer :: "session \<Rightarrow> byte list \<Rightarrow> nat \<Rightarrow> session" where
  "awaiting_trailer ss avail len =
     ss\<lparr>inputStream := avail, readRequests := readRequests ss @ [HEADER_LENGTH, len],
        trailerType := Some Ignore, trailerLength := len, readFunc := ReadTrailer\<rparr>"

text \<open>
  A session waiting for a call request that has received a retarget response with a
  two-byte trailer, followed by a call request.
\<close>

definition retarget_then_request :: session where
  "retarget_then_request =
     socket_data [0x84, 0, 0, 2, 9, 9, 0x81, 0, 0, 1, 7]
       (attach [] (Some Later) (NetbiosSession default_opts never_pause))"



text \<open>
  What \<^verbatim>\<open>_doDrain(callback)\<close> adds to the trace: the \<^verbatim>\<open>'drain'\<close> event when one is
  owed, and the callback queued with \<^verbatim>\<open>process.nextTick\<close>.
\<close>

definition drained_effects :: "callback \<Rightarrow> session \<Rightarrow> effect list" where
  "drained_effects cb ss =
     (if needDrain ss then [EmitDrain] else [])
     @ (case cb of Some k \<Rightarrow> [NextTick k None] | None \<Rightarrow> [])"

text \<open>A session in direct mode, attached to a socket.\<close>

definition direct_session :: "bool list \<Rightarrow> session" where
  "direct_session sock =
     attach sock None (NetbiosSession (default_opts\<lparr>opt_direct := True\<rparr>) never_pause)"



text \<open>A call request frame with a two-byte trailer.\<close>

definition request_frame :: "byte list" where
  "request_frame = [0x81, 0, 0, 2, 1, 2]"

text \<open>
  A session that was attached with a callback which decides later, after a call request
  arrived: the callback holds request object 0 and has not used it.
\<close>

definition pending_request :: session where
  "pending_request =
     outcome (run fromBuffer_any [Tick, SocketData request_frame, Tick]
       (attach [] (Some Later) (NetbiosSession default_opts never_pause)))"

text \<open>
  A session constructed with the given \<^verbatim>\<open>autoAccept\<close> option and attached without a
  callback, after a call request arrived and was read.
\<close>

definition unattended :: "bool \<Rightarrow> session" where
  "unattended auto =
     outcome (run fromBuffer_any [Tick, SocketData request_frame, Tick]
       (attach [] None (NetbiosSession (default_opts\<lparr>opt_autoAccept := auto\<rparr>) never_pause)))"

text \<open>
  A session that has sent its call request through \<^verbatim>\<open>_connectSocket\<close>, with or
  without a completion callback.
\<close>

definition calling :: "bool \<Rightarrow> session" where
  "calling cb =
     outcome (connectSocket [] (Inr [1]) (Inr [2]) cb (NetbiosSession default_opts never_pause))"

text \<open>
  An attached session whose callback accepted the call.  In the first, two messages
  arrived, the first was dispatched, and then the application called \<^verbatim>\<open>pause()\<close>
  while the next \<^verbatim>\<open>_doRead\<close> was queued.  In the second, nothing had arrived yet
  when the application called \<^verbatim>\<open>pause()\<close>.
\<close>

definition accepted_then_paused :: session where
  "accepted_then_paused =
     outcome (run fromBuffer_any
       [Tick, SocketData request_frame, Tick, SocketData [0, 0, 0, 1, 0x41, 0, 0, 0, 1, 0x42],
        Tick, CallPause]
       (attach [] (Some AcceptNow) (NetbiosSession default_opts never_pause)))"

definition idle_then_paused :: session where
  "idle_then_paused =
     outcome (run fromBuffer_any [Tick, SocketData request_frame, Tick, Tick, CallPause]
       (attach [] (Some AcceptNow) (NetbiosSession default_opts never_pause)))"

text \<open>A message listener that calls \<^verbatim>\<open>pause()\<close> on every message.\<close>

definition always_pause :: "byte list \<Rightarrow> bool" where
  "always_pause msg = True"

subsection \<open>Properties of the header codec\<close>

lemma TYPE_TO_FROM_STRING:
  "TYPE_TO_STRING (word_of_int (TYPE_FROM_STRING ty)) = Some ty"
  by (cases ty) (simp_all add: TYPE_TO_STRING_def)

lemma TYPE_FROM_STRING_range: "0 \<le> TYPE_FROM_STRING ty \<and> TYPE_FROM_STRING ty \<le> 0xff"
  by (cases ty) simp_all

lemma readUInt16BE_writeUInt16BE:
  assumes "0 \<le> v" and "v \<le> 0xffff"
  shows "readUInt16BE [b0, b1, word_of_int (v div 256), word_of_int (v mod 256)] 2 = nat v"
proof -
  have hi: "unat (word_of_int (v div 256) :: byte) = nat (v div 256)"
    using assms by (simp add: unat_eq_nat_uint uint_word_of_int take_bit_eq_mod)
  have lo: "unat (word_of_int (v mod 256) :: byte) = nat (v mod 256)"
    by (simp add: unat_eq_nat_uint uint_word_of_int take_bit_eq_mod)
  have "nat (v div 256) * 256 + nat (v mod 256) = nat v"
    using assms by (simp add: nat_div_distrib nat_mod_distrib)
  then show ?thesis
    by (simp add: readUInt16BE_def hi lo numeral_2_eq_2)
qed

lemma readUInt16BE_bound: "readUInt16BE chunk off \<le> 0xffff"
proof -
  have "unat (chunk ! off) < 256" and "unat (chunk ! (off + 1)) < 256"
    using unsigned_less [of "chunk ! off"] unsigned_less [of "chunk ! (off + 1)"]
    by simp_all
  then show ?thesis
    by (simp add: readUInt16BE_def)
qed

lemma decodeHeader_length_bound: "snd (decodeHeader chunk) \<le> MAX_TRAILER_LENGTH"
  using readUInt16BE_bound [of chunk 2]
  by (simp add: decodeHeader_def Let_def EXTENSION_LENGTH_def MAX_TRAILER_LENGTH_def)

lemma packHeader_small:
  assumes "0 \<le> len" and "len < int EXTENSION_LENGTH"
  shows "packHeader ty len =
         Inr [word_of_int (TYPE_FROM_STRING ty), 0,
              word_of_int (len div 256), word_of_int (len mod 256)]"
  using assms TYPE_FROM_STRING_range [of ty]
  by (simp add: packHeader_def writeUInt8_def writeUInt16BE_def EXTENSION_LENGTH_def)

lemma packHeader_large:
  assumes "int EXTENSION_LENGTH \<le> len" and "len \<le> int MAX_TRAILER_LENGTH"
  shows "packHeader ty len =
         Inr [word_of_int (TYPE_FROM_STRING ty), 0x80,
              word_of_int ((len - 65536) div 256), word_of_int ((len - 65536) mod 256)]"
  using assms TYPE_FROM_STRING_range [of ty]
  by (simp add: packHeader_def writeUInt8_def writeUInt16BE_def EXTENSION_LENGTH_def
      MAX_TRAILER_LENGTH_def FLAGS_E_MASK_def)

lemma decodeHeader_packHeader:
  assumes "0 \<le> len" and "len \<le> int MAX_TRAILER_LENGTH"
  shows "\<exists>buf. packHeader ty len = Inr buf \<and> length buf = HEADER_LENGTH
           \<and> decodeHeader buf = (Some ty, nat len)"
proof (cases "len < int EXTENSION_LENGTH")
  case True
  have "readUInt16BE [word_of_int (TYPE_FROM_STRING ty), 0,
          word_of_int (len div 256), word_of_int (len mod 256)] 2 = nat len"
    using assms True by (intro readUInt16BE_writeUInt16BE) (simp_all add: EXTENSION_LENGTH_def)
  then show ?thesis
    using packHeader_small [OF assms(1) True, of ty]
    by (simp add: decodeHeader_def readUInt8_def TYPE_TO_FROM_STRING HEADER_LENGTH_def
        FLAGS_E_MASK_def)
next
  case False
  then have ge: "int EXTENSION_LENGTH \<le> len" by simp
  have "readUInt16BE [word_of_int (TYPE_FROM_STRING ty), 0x80,
          word_of_int ((len - 65536) div 256), word_of_int ((len - 65536) mod 256)] 2
        = nat (len - 65536)"
    using assms ge
    by (intro readUInt16BE_writeUInt16BE) (simp_all add: EXTENSION_LENGTH_def MAX_TRAILER_LENGTH_def)
  moreover have "nat (len - 65536) + 65536 = nat len"
    using ge by (simp add: EXTENSION_LENGTH_def)
  ultimately show ?thesis
    using packHeader_large [OF ge assms(2), of ty]
    by (simp add: decodeHeader_def readUInt8_def TYPE_TO_FROM_STRING HEADER_LENGTH_def
        FLAGS_E_MASK_def EXTENSION_LENGTH_def)
qed

subsection \<open>Read requests stay bounded\<close>

lemma rd_simple [simp]:
  "read_fields (log e ss) = read_fields ss"
  "read_fields (doRead ss) = read_fields ss"
  "read_fields (pause ss) = read_fields ss"
  "read_fields (resume ss) = read_fields ss"
  "read_fields (session_end ss) = read_fields ss"
  "read_fields (established ss) = read_fields ss"
  "read_fields (doDrain cb ss) = read_fields ss"
  "read_fields (socket_data bytes ss) = read_fields ss"
  "read_fields (handleMessage chunk ss) = read_fields ss"
  "read_fields (handlePositiveResponse ss) = read_fields ss"
  "read_fields (on_error ss) = read_fields ss"
  by (simp_all add: read_fields_def log_def doRead_def pause_def resume_def session_end_def
      on_error_def
      established_def doDrain_def socket_data_def handleMessage_def handlePositiveResponse_def
      Let_def split: option.splits)

lemma rd_upd [simp]:
  "read_fields (ss\<lparr>requests := rq\<rparr>) = read_fields ss"
  "read_fields (ss\<lparr>drainListeners := dl\<rparr>) = read_fields ss"
  "read_fields (ss\<lparr>needDrain := nd\<rparr>) = read_fields ss"
  "read_fields (ss\<lparr>connectCallback := cc\<rparr>) = read_fields ss"
  "read_fields (ss\<lparr>ticks := tk\<rparr>) = read_fields ss"
  "read_fields (ss\<lparr>readableListeners := rl\<rparr>) = read_fields ss"
  "read_fields (ss\<lparr>readFunc := rf\<rparr>) = read_fields ss"
  "read_fields (ss\<lparr>trailerType := tt\<rparr>) = read_fields ss"
  by (simp_all add: read_fields_def)

lemma rd_socket_write:
  "socket_write buf ss = Inl (e, s) \<Longrightarrow> read_fields s = read_fields ss"
  "socket_write buf ss = Inr (b, s) \<Longrightarrow> read_fields s = read_fields ss"
  by (auto simp: socket_write_def read_fields_def Let_def split: if_splits)

lemma rd_sendPositiveResponse:
  "sendPositiveResponse ss = Inl (e, s) \<Longrightarrow> read_fields s = read_fields ss"
  "sendPositiveResponse ss = Inr s \<Longrightarrow> read_fields s = read_fields ss"
  by (auto simp: sendPositiveResponse_def split: sum.splits prod.splits dest!: rd_socket_write)

lemma rd_sendNegativeResponse:
  "sendNegativeResponse r ss = Inl (e, s) \<Longrightarrow> read_fields s = read_fields ss"
  "sendNegativeResponse r ss = Inr s \<Longrightarrow> read_fields s = read_fields ss"
  by (auto simp: sendNegativeResponse_def Let_def split: sum.splits prod.splits if_splits
      dest!: rd_socket_write)

lemma rd_writeMsg:
  "writeMsg msg cb ss = Inl (e, s) \<Longrightarrow> read_fields s = read_fields ss"
  "writeMsg msg cb ss = Inr (b, s) \<Longrightarrow> read_fields s = read_fields ss"
  by (auto simp: writeMsg_def split: sum.splits prod.splits if_splits dest!: rd_socket_write)

lemma rd_session_write:
  "session_write msg cb ss = Inl (e, s) \<Longrightarrow> read_fields s = read_fields ss"
  "session_write msg cb ss = Inr (b, s) \<Longrightarrow> read_fields s = read_fields ss"
  by (auto simp: session_write_def emit_error_def Let_def
      split: sum.splits prod.splits if_splits option.splits
      dest!: rd_socket_write rd_writeMsg)

lemma rd_request_accept:
  "request_accept i ss = Inl (e, s) \<Longrightarrow> read_fields s = read_fields ss"
  "request_accept i ss = Inr s \<Longrightarrow> read_fields s = read_fields ss"
  by (auto simp: request_accept_def split: sum.splits prod.splits if_splits
      dest!: rd_sendPositiveResponse)

lemma rd_request_reject:
  "request_reject i r ss = Inl (e, s) \<Longrightarrow> read_fields s = read_fields ss"
  "request_reject i r ss = Inr s \<Longrightarrow> read_fields s = read_fields ss"
  by (auto simp: request_reject_def split: sum.splits prod.splits if_splits
      dest!: rd_sendNegativeResponse)

lemma rd_handleRequest:
  "handleRequest fb chunk ss = Inl (e, s) \<Longrightarrow> read_fields s = read_fields ss"
  "handleRequest fb chunk ss = Inr s \<Longrightarrow> read_fields s = read_fields ss"
  by (auto simp: handleRequest_def Let_def acceptDefault_def
      split: sum.splits prod.splits if_splits option.splits reaction.splits
      dest!: rd_sendNegativeResponse rd_sendPositiveResponse rd_request_accept rd_request_reject)

lemma rd_handleNegativeResponse:
  "handleNegativeResponse chunk ss = Inl (e, s) \<Longrightarrow> read_fields s = read_fields ss"
  "handleNegativeResponse chunk ss = Inr s \<Longrightarrow> read_fields s = read_fields ss"
  by (auto simp: handleNegativeResponse_def Let_def split: if_splits)

lemma rd_fire_drain:
  "fire_drain ls ss = Inl (e, s) \<Longrightarrow> read_fields s = read_fields ss"
  "fire_drain ls ss = Inr s \<Longrightarrow> read_fields s = read_fields ss"
  by (induction ls ss rule: fire_drain.induct)
     (auto split: sum.splits prod.splits dest!: rd_writeMsg)


lemma read_bounded_rd: "read_fields s = read_fields ss \<Longrightarrow> read_bounded s = read_bounded ss"
  by (simp add: read_fields_def read_bounded_def)

lemma read_bounded_simple [simp]:
  "read_bounded (handleMessage chunk ss) = read_bounded ss"
  "read_bounded (handlePositiveResponse ss) = read_bounded ss"
  "read_bounded (doRead ss) = read_bounded ss"
  "read_bounded (pause ss) = read_bounded ss"
  "read_bounded (resume ss) = read_bounded ss"
  "read_bounded (session_end ss) = read_bounded ss"
  "read_bounded (socket_data bytes ss) = read_bounded ss"
  "read_bounded (on_error ss) = read_bounded ss"
  "read_bounded (ss\<lparr>ticks := tk\<rparr>) = read_bounded ss"
  "read_bounded (ss\<lparr>readableListeners := rl\<rparr>) = read_bounded ss"
  "read_bounded (ss\<lparr>drainListeners := dl\<rparr>) = read_bounded ss"
  by (rule read_bounded_rd, simp)+

lemma rb_keep: "read_bounded ss \<Longrightarrow> read_fields s = read_fields ss \<Longrightarrow> read_bounded s"
  using read_bounded_rd by blast

lemma read_bounded_stream_read:
  assumes "read_bounded ss" and "n \<le> MAX_TRAILER_LENGTH" and "stream_read n ss = (r, s)"
  shows "list_all (\<lambda>n. n \<le> MAX_TRAILER_LENGTH) (readRequests s)"
    and "trailerLength s = trailerLength ss"
  using assms by (auto simp: stream_read_def read_bounded_def split: if_splits)

lemma read_bounded_readTrailer:
  assumes "read_bounded ss"
  shows "readTrailer fb ss = Inl (e, s) \<Longrightarrow> read_bounded s"
    and "readTrailer fb ss = Inr (b, s) \<Longrightarrow> read_bounded s"
proof -
  obtain r ss1 where sr: "stream_read (trailerLength ss) ss = (r, ss1)"
    by (cases "stream_read (trailerLength ss) ss")
  from assms have le: "trailerLength ss \<le> MAX_TRAILER_LENGTH"
    by (simp add: read_bounded_def)
  note b1 = read_bounded_stream_read [OF assms le sr]
  have rb1: "read_bounded ss1"
    using b1 le by (simp add: read_bounded_def)
  define ss2 where "ss2 = ss1\<lparr>readFunc := ReadHeader, trailerType := None, trailerLength := 0\<rparr>"
  have rb2: "read_bounded ss2"
    using b1 by (simp add: read_bounded_def ss2_def)
  have unfold: "readTrailer fb ss =
     (case r of None \<Rightarrow> Inr (False, ss1)
      | Some chunk \<Rightarrow>
          if trailerType ss1 = Some (Type Request)
          then (case handleRequest fb chunk ss2 of Inl x \<Rightarrow> Inl x | Inr ss3 \<Rightarrow> Inr (True, ss3))
          else if trailerType ss1 = Some (Type Message) then Inr (True, handleMessage chunk ss2)
          else if trailerType ss1 = Some (Type NegativeResponse)
          then (case handleNegativeResponse chunk ss2 of Inl x \<Rightarrow> Inl x
                | Inr ss3 \<Rightarrow> Inr (True, ss3))
          else Inr (True, ss2))"
    by (simp add: readTrailer_def sr ss2_def Let_def split: option.splits sum.splits)
  show "readTrailer fb ss = Inl (e, s) \<Longrightarrow> read_bounded s"
    unfolding unfold using rb1 rb2
    by (auto split: option.splits sum.splits if_splits
        intro: rb_keep [OF rb2 rd_handleRequest(1)] rb_keep [OF rb2 rd_handleNegativeResponse(1)])
  show "readTrailer fb ss = Inr (b, s) \<Longrightarrow> read_bounded s"
    unfolding unfold using rb1 rb2
    by (auto split: option.splits sum.splits if_splits
        intro: rb_keep [OF rb2 rd_handleRequest(2)] rb_keep [OF rb2 rd_handleNegativeResponse(2)])
qed


lemma read_bounded_readHeader:
  assumes "read_bounded ss"
  shows "readHeader fb ss = Inl (e, s) \<Longrightarrow> read_bounded s"
    and "readHeader fb ss = Inr (b, s) \<Longrightarrow> read_bounded s"
proof -
  obtain r ss1 where sr: "stream_read HEADER_LENGTH ss = (r, ss1)"
    by (cases "stream_read HEADER_LENGTH ss")
  have le: "HEADER_LENGTH \<le> MAX_TRAILER_LENGTH"
    by (simp add: HEADER_LENGTH_def MAX_TRAILER_LENGTH_def)
  note b1 = read_bounded_stream_read [OF assms le sr]
  have rb1: "read_bounded ss1"
    using b1 assms by (simp add: read_bounded_def)
  have rb2: "read_bounded (ss1\<lparr>trailerType := tt, trailerLength := snd (decodeHeader chunk),
                                readFunc := rf\<rparr>)" for tt chunk rf
    using b1 decodeHeader_length_bound [of chunk] by (simp add: read_bounded_def)
  have rb3: "read_bounded (ss1\<lparr>trailerType := tt, trailerLength := n,
                                trailerType := tt', trailerLength := 0\<rparr>)" for tt tt' n
    using b1 by (simp add: read_bounded_def)
  show "readHeader fb ss = Inl (e, s) \<Longrightarrow> read_bounded s"
    using rb1 rb3 read_bounded_readTrailer(1) [OF rb2]
    by (auto simp: readHeader_def sr Let_def split: option.splits if_splits)
  show "readHeader fb ss = Inr (b, s) \<Longrightarrow> read_bounded s"
    using rb1 rb3 read_bounded_readTrailer(2) [OF rb2]
    by (auto simp: readHeader_def sr Let_def split: option.splits if_splits)
qed

lemma read_bounded_readFunc_call:
  assumes "read_bounded ss"
  shows "readFunc_call fb ss = Inl (e, s) \<Longrightarrow> read_bounded s"
    and "readFunc_call fb ss = Inr (b, s) \<Longrightarrow> read_bounded s"
  using read_bounded_readHeader [OF assms] read_bounded_readTrailer [OF assms]
  by (auto simp: readFunc_call_def split: read_func.splits)

lemma read_bounded_run_tick:
  assumes "read_bounded ss"
  shows "read_bounded (outcome (run_tick fb ss))"
proof (cases "ticks ss = 0")
  case True
  with assms show ?thesis by (simp add: run_tick_def outcome_def)
next
  case False
  have rb: "read_bounded (ss\<lparr>ticks := ticks ss - 1\<rparr>)"
    using assms by simp
  show ?thesis
    using False read_bounded_readFunc_call [OF rb]
    by (auto simp: run_tick_def outcome_def split: sum.splits prod.splits)
qed

lemma outcome_keep:
  assumes "\<And>e s. r = Inl (e, s) \<Longrightarrow> read_fields s = read_fields ss"
    and "\<And>s. r = Inr s \<Longrightarrow> read_fields s = read_fields ss"
    and "read_bounded ss"
  shows "read_bounded (outcome r)"
proof (cases r)
  case (Inl x)
  then show ?thesis
    using assms(1) [of "fst x" "snd x"] assms(3)
    by (cases x) (auto simp: outcome_def intro: rb_keep)
next
  case (Inr s)
  then show ?thesis
    using assms(2) [of s] assms(3) by (simp add: outcome_def rb_keep)
qed

lemma outcome2_keep:
  assumes "\<And>e s. r = Inl (e, s) \<Longrightarrow> read_fields s = read_fields ss"
    and "\<And>b s. r = Inr (b, s) \<Longrightarrow> read_fields s = read_fields ss"
    and "read_bounded ss"
  shows "read_bounded (outcome (case r of Inl x \<Rightarrow> Inl x | Inr (b, s) \<Rightarrow> Inr s))"
proof (cases r)
  case (Inl x)
  then show ?thesis
    using assms(1) [of "fst x" "snd x"] assms(3)
    by (cases x) (auto simp: outcome_def intro: rb_keep)
next
  case (Inr p)
  then show ?thesis
    using assms(2) [of "fst p" "snd p"] assms(3)
    by (cases p) (auto simp: outcome_def intro: rb_keep)
qed

lemma read_bounded_step:
  assumes "read_bounded ss"
  shows "read_bounded (outcome (step fb a ss))"
proof (cases a)
  case Tick
  then show ?thesis using read_bounded_run_tick [OF assms] by simp
next
  case SocketDrain
  have "read_bounded (ss\<lparr>drainListeners := []\<rparr>)" using assms by simp
  then have "read_bounded (outcome (fire_drain (drainListeners ss) (ss\<lparr>drainListeners := []\<rparr>)))"
    by (rule outcome_keep [rotated 2]) (erule rd_fire_drain)+
  then show ?thesis using SocketDrain by (simp add: socket_drain_def)
next
  case (CallWrite msg cb)
  show ?thesis unfolding CallWrite step.simps
    by (rule outcome2_keep [OF _ _ assms]) (erule rd_session_write)+
next
  case (CallAccept i)
  show ?thesis unfolding CallAccept step.simps
    by (rule outcome_keep [OF _ _ assms]) (erule rd_request_accept)+
next
  case (CallReject i r)
  show ?thesis unfolding CallReject step.simps
    by (rule outcome_keep [OF _ _ assms]) (erule rd_request_reject)+
qed (use assms in \<open>simp_all add: outcome_def\<close>)

lemma read_bounded_run:
  "read_bounded ss \<Longrightarrow> read_bounded (outcome (run fb as ss))"
proof (induction as arbitrary: ss)
  case Nil
  then show ?case by (simp add: outcome_def)
next
  case (Cons a as)
  show ?case
  proof (cases "step fb a ss")
    case (Inl x)
    then show ?thesis
      using read_bounded_step [OF Cons.prems, of fb a] by (simp add: outcome_def)
  next
    case (Inr s')
    then have "read_bounded s'"
      using read_bounded_step [OF Cons.prems, of fb a] by (simp add: outcome_def)
    then show ?thesis
      using Cons.IH [of s'] Inr by simp
  qed
qed

lemma read_bounded_NetbiosSession: "read_bounded (NetbiosSession os l)"
  by (simp add: read_bounded_def NetbiosSession_def)

lemma read_bounded_attach: "read_bounded ss \<Longrightarrow> read_bounded (attach sock cb ss)"
  by (simp add: attach_def Let_def read_bounded_def log_def doRead_def established_def)

lemma rd_sendRequest:
  "sendRequest t f cb ss = Inl (e, s) \<Longrightarrow> read_fields s = read_fields ss"
  "sendRequest t f cb ss = Inr s \<Longrightarrow> read_fields s = read_fields ss"
  by (auto simp: sendRequest_def Let_def split: sum.splits prod.splits if_splits
      dest!: rd_socket_write)

lemma read_bounded_connectSocket:
  assumes "read_bounded ss"
  shows "read_bounded (outcome (connectSocket sock f t cb ss))"
proof -
  define ss1 where "ss1 = ss\<lparr>socket := True, flushPlan := sock, drainListeners := [],
                   inputStream := [], mode := Some EstablishingOut\<rparr>"
  have rb1: "read_bounded ss1"
    using assms by (simp add: read_bounded_def ss1_def)
  show ?thesis
  proof (cases "direct ss1")
    case True
    have "read_fields (doRead (established (if cb then log (ConnectCallback None) ss1 else ss1))) = read_fields ss1"
      by simp
    then show ?thesis
      using True rb1 by (simp add: connectSocket_def ss1_def [symmetric] outcome_def rb_keep)
  next
    case False
    have "read_bounded (outcome (sendRequest t f cb ss1))"
      by (rule outcome_keep [OF _ _ rb1]) (erule rd_sendRequest)+
    then show ?thesis
      using False
      by (auto simp: connectSocket_def ss1_def [symmetric] outcome_def split: sum.splits)
  qed
qed


lemma readTrailer_request:
  "readRequests (outcome2 (readTrailer fb ss)) = readRequests ss @ [trailerLength ss]"
proof -
  obtain r ss1 where sr: "stream_read (trailerLength ss) ss = (r, ss1)"
    by (cases "stream_read (trailerLength ss) ss")
  then have r1: "readRequests ss1 = readRequests ss @ [trailerLength ss]"
    by (auto simp: stream_read_def split: if_splits)
  define ss2 where "ss2 = ss1\<lparr>readFunc := ReadHeader, trailerType := None, trailerLength := 0\<rparr>"
  have r2: "readRequests ss2 = readRequests ss @ [trailerLength ss]"
    using r1 by (simp add: ss2_def)
  have keep: "read_fields s = read_fields ss2 \<Longrightarrow> readRequests s = readRequests ss2" for s
    by (simp add: read_fields_def)
  have hm: "readRequests (handleMessage chunk ss2) = readRequests ss2" for chunk
    by (rule keep) simp
  show ?thesis
    using r1 r2 hm
    by (auto simp: readTrailer_def sr ss2_def [symmetric] Let_def outcome2_def
        split: option.splits sum.splits
        dest!: rd_handleRequest rd_handleNegativeResponse keep)
qed

lemmas session_defs =
  run_tick_def readFunc_call_def readHeader_def readTrailer_def stream_read_def
  decodeHeader_def readUInt8_def readUInt16BE_def TYPE_TO_STRING_def FLAGS_E_MASK_def
  EXTENSION_LENGTH_def MAX_TRAILER_LENGTH_def HEADER_LENGTH_def
  handleRequest_def handleMessage_def handlePositiveResponse_def handleNegativeResponse_def
  ERROR_CODE_TO_STRING_def acceptDefault_def
  request_accept_def request_reject_def sendPositiveResponse_def sendNegativeResponse_def
  lookup_ERROR_CODE_FROM_STRING_def ERROR_CODE_FROM_STRING_def Object_prototype_def
  writeUInt8_value_def writeUInt8_def writeUInt16BE_def packHeader_def
  socket_write_def next_flush_def session_end_def established_def log_def doRead_def pause_def resume_def
  socket_data_def socket_drain_def doDrain_def writeMsg_def session_write_def
  on_error_def emit_error_def
  attach_def connectSocket_def sendRequest_def NetbiosSession_def
  default_opts_def fromBuffer_any_def never_pause_def outcome_def outcome2_def Let_def

subsection \<open>C1: the header codec round-trips\<close>

lemma readHeader_pending:
  assumes "mode ss = Some m" and "inputStream ss = buf" and "length buf = 4"
    and "decodeHeader buf = (Some ty, len)" and "0 < len"
  shows "readHeader fb ss =
     Inr (False, ss\<lparr>inputStream := [], readRequests := readRequests ss @ [4, len],
                    trailerType := Some (if VALID_TYPES m (Some ty) then Type ty else Ignore),
                    trailerLength := len, readFunc := ReadTrailer\<rparr>)"
proof -
  define ss1 where "ss1 = ss\<lparr>inputStream := [], readRequests := readRequests ss @ [4]\<rparr>"
  have sr: "stream_read HEADER_LENGTH ss = (Some buf, ss1)"
    using assms(2,3) by (simp add: stream_read_def HEADER_LENGTH_def ss1_def)
  have m1: "mode ss1 = Some m"
    using assms(1) by (simp add: ss1_def)
  define ss2 where "ss2 = ss1\<lparr>trailerType :=
        Some (if VALID_TYPES m (Some ty) then Type ty else Ignore),
      trailerLength := len, readFunc := ReadTrailer\<rparr>"
  have rh: "readHeader fb ss = readTrailer fb ss2"
    using assms(4,5) by (simp add: readHeader_def sr m1 ss2_def Let_def)
  have "stream_read (trailerLength ss2) ss2 = (None, ss2\<lparr>readRequests := readRequests ss2 @ [len]\<rparr>)"
    using assms(5) by (simp add: stream_read_def ss2_def ss1_def)
  then have "readTrailer fb ss2 = Inr (False, ss2\<lparr>readRequests := readRequests ss2 @ [len]\<rparr>)"
    by (simp add: readTrailer_def)
  then show ?thesis
    by (simp add: rh ss2_def ss1_def)
qed

text \<open>
  Claim C1.  For every frame type and every length from 0 to 131071, \<^verbatim>\<open>_packHeader\<close>
  writes four bytes without throwing, and the decoding that \<^verbatim>\<open>_readHeader\<close> applies
  to these four bytes gives back the same type and the same length; a length of 65536
  or more travels as the extension bit plus the remainder.  A session that finds
  these four bytes, and nothing more yet, in its input stream, in any of its three
  states, records a length above 0 as the pending trailer length and the type as the
  pending trailer type, or \<^verbatim>\<open>'ignore'\<close> when the type is not legal in its state.
\<close>

theorem header_round_trip:
  assumes "0 \<le> len" and "len \<le> 131071"
  shows "\<exists>buf. packHeader ty len = Inr buf \<and> length buf = 4
           \<and> decodeHeader buf = (Some ty, nat len)
           \<and> (\<forall>ss m fb. mode ss = Some m \<and> inputStream ss = buf \<and> 0 < len \<longrightarrow>
                 readHeader fb ss =
                   Inr (False, ss\<lparr>inputStream := [],
                          readRequests := readRequests ss @ [4, nat len],
                          trailerType :=
                            Some (if VALID_TYPES m (Some ty) then Type ty else Ignore),
                          trailerLength := nat len, readFunc := ReadTrailer\<rparr>))"
proof -
  obtain buf where buf: "packHeader ty len = Inr buf" "length buf = 4"
      "decodeHeader buf = (Some ty, nat len)"
    using decodeHeader_packHeader [of len ty] assms
    by (auto simp: MAX_TRAILER_LENGTH_def HEADER_LENGTH_def)
  have "readHeader fb ss =
      Inr (False, ss\<lparr>inputStream := [], readRequests := readRequests ss @ [4, nat len],
             trailerType := Some (if VALID_TYPES m (Some ty) then Type ty else Ignore),
             trailerLength := nat len, readFunc := ReadTrailer\<rparr>)"
    if "mode ss = Some m" and "inputStream ss = buf" and "0 < len" for ss m fb
    using readHeader_pending [OF that(1,2) buf(2,3), of fb] that(3) by simp
  with buf show ?thesis by blast
qed

theorem header_round_trip_witness:
  "(0::int) \<le> 70000 \<and> (70000::int) \<le> 131071
   \<and> packHeader NegativeResponse 70000 = Inr [0x83, 0x80, 0x11, 0x70]
   \<and> decodeHeader [0x83, 0x80, 0x11, 0x70] = (Some NegativeResponse, 70000)
   \<and> mode (socket_data [0x83, 0x80, 0x11, 0x70] (calling True)) = Some EstablishingOut
   \<and> readHeader fromBuffer_any (socket_data [0x83, 0x80, 0x11, 0x70] (calling True)) =
       Inr (False, (socket_data [0x83, 0x80, 0x11, 0x70] (calling True))
              \<lparr>inputStream := [], readRequests := [4, 70000],
               trailerType := Some (Type NegativeResponse),
               trailerLength := 70000, readFunc := ReadTrailer\<rparr>)"
proof -
  have p: "packHeader NegativeResponse 70000 = Inr [0x83, 0x80, 0x11, 0x70]"
    by (simp add: packHeader_def writeUInt8_def writeUInt16BE_def EXTENSION_LENGTH_def
        FLAGS_E_MASK_def)
  have s: "mode (socket_data [0x83, 0x80, 0x11, 0x70] (calling True)) = Some EstablishingOut"
    "inputStream (socket_data [0x83, 0x80, 0x11, 0x70] (calling True))
       = [0x83, 0x80, 0x11, 0x70]"
    "readRequests (socket_data [0x83, 0x80, 0x11, 0x70] (calling True)) = []"
    by (simp_all add: calling_def session_defs)
  from header_round_trip [of 70000 NegativeResponse] p s show ?thesis
    by simp
qed

subsection \<open>C10: trailer reads stay below the high-water mark\<close>

text \<open>
  Claim C10.  Whatever the four bytes of a header are, the trailer length that
  \<^verbatim>\<open>_readHeader\<close> computes from them is at most 131071, the maximum trailer length,
  which is below the high-water mark the input stream is created with.
  \<^verbatim>\<open>_readTrailer\<close> asks the stream for exactly the pending trailer length, and in
  every run of a session bound by \<^verbatim>\<open>attach\<close> or \<^verbatim>\<open>_connectSocket\<close>, whether it
  ends normally or in an exception, every size asked of the stream is at most the
  maximum trailer length.
\<close>

theorem trailer_read_bound:
  "snd (decodeHeader [t, f, hi, lo]) \<le> MAX_TRAILER_LENGTH
   \<and> MAX_TRAILER_LENGTH = 131071
   \<and> MAX_TRAILER_LENGTH < highWaterMark
   \<and> readRequests (outcome2 (readTrailer fb ss)) = readRequests ss @ [trailerLength ss]
   \<and> (\<forall>n \<in> set (readRequests (outcome (run fb as (attach sock cb (NetbiosSession os l))))).
         n \<le> MAX_TRAILER_LENGTH)
   \<and> (\<forall>n \<in> set (readRequests (outcome (run fb as
                (outcome (connectSocket sock fromName toName ccb (NetbiosSession os l)))))).
         n \<le> MAX_TRAILER_LENGTH)"
proof -
  have "read_bounded (outcome (run fb as (attach sock cb (NetbiosSession os l))))"
    by (intro read_bounded_run read_bounded_attach read_bounded_NetbiosSession)
  moreover have "read_bounded (outcome (run fb as
      (outcome (connectSocket sock fromName toName ccb (NetbiosSession os l)))))"
    by (intro read_bounded_run read_bounded_connectSocket read_bounded_NetbiosSession)
  ultimately show ?thesis
    using decodeHeader_length_bound [of "[t, f, hi, lo]"] readTrailer_request [of fb ss]
    by (simp add: read_bounded_def list_all_iff highWaterMark_def HEADER_LENGTH_def
        MAX_TRAILER_LENGTH_def)
qed

theorem trailer_read_bound_witness:
  "131071 \<in> set (readRequests (outcome (run fromBuffer_any
       [Tick, SocketData [0, 0x80, 0xff, 0xff], Tick]
       (attach [] None (NetbiosSession (default_opts\<lparr>opt_direct := True\<rparr>) never_pause)))))
   \<and> (131071::nat) \<le> MAX_TRAILER_LENGTH"
proof -
  have "readRequests (outcome (run fromBuffer_any
       [Tick, SocketData [0, 0x80, 0xff, 0xff], Tick]
       (attach [] None (NetbiosSession (default_opts\<lparr>opt_direct := True\<rparr>) never_pause))))
     = [4, 4, 131071]"
    by (simp add: session_defs)
  then have m: "131071 \<in> set (readRequests (outcome (run fromBuffer_any
       [Tick, SocketData [0, 0x80, 0xff, 0xff], Tick]
       (attach [] None (NetbiosSession (default_opts\<lparr>opt_direct := True\<rparr>) never_pause)))))"
    by simp
  with trailer_read_bound [where fb = fromBuffer_any
      and as = "[Tick, SocketData [0, 0x80, 0xff, 0xff], Tick]" and sock = "[]" and cb = None
      and os = "default_opts\<lparr>opt_direct := True\<rparr>" and l = never_pause]
  show ?thesis by blast
qed

subsection \<open>C3: unexpected frames are drained\<close>

text \<open>
  The decoding in terms of the four bytes on the wire: the type byte looked up in the
  table, and the big-endian 16-bit field plus 65536 when bit 7 of the flags is set.
\<close>

lemma decodeHeader_wire:
  "decodeHeader [t, f, hi, lo] =
     (TYPE_TO_STRING t, unat hi * 256 + unat lo + (if f AND 0x80 \<noteq> 0 then 65536 else 0))"
  by (simp add: decodeHeader_def readUInt8_def readUInt16BE_def FLAGS_E_MASK_def
      EXTENSION_LENGTH_def Let_def)

lemma ignore_trailer_phase:
  assumes "readFunc s = ReadTrailer" and "trailerType s = Some Ignore"
    and "trailerLength s = len" and "0 < len"
  shows "readFunc_call fb s =
     (if length (inputStream s) < len
      then Inr (False, s\<lparr>readRequests := readRequests s @ [len]\<rparr>)
      else Inr (True, after_frame s (drop len (inputStream s)) [len]))"
  using assms
  by (simp add: readFunc_call_def readTrailer_def stream_read_def after_frame_def Let_def)

lemma ignore_header_phase:
  assumes m: "mode ss = Some m" and rf: "readFunc ss = ReadHeader"
    and inv: "\<not> VALID_TYPES m (TYPE_TO_STRING t)"
    and wire: "len = unat hi * 256 + unat lo + (if f AND 0x80 \<noteq> 0 then 65536 else 0)"
    and inp: "inputStream ss = [t, f, hi, lo] @ avail"
  shows "readFunc_call fb ss =
     (if len = 0 then Inr (True, after_frame ss avail [HEADER_LENGTH])
      else if length avail < len then Inr (False, awaiting_trailer ss avail len)
      else Inr (True, after_frame ss (drop len avail) [HEADER_LENGTH, len]))"
proof -
  have len: "len = snd (decodeHeader [t, f, hi, lo])"
    by (simp add: decodeHeader_wire wire)
  have ty: "fst (decodeHeader [t, f, hi, lo]) = TYPE_TO_STRING t"
    by (simp add: decodeHeader_wire)
  have rf': "ss\<lparr>readFunc := ReadHeader\<rparr> = ss"
  proof -
    have "ss\<lparr>readFunc := readFunc ss\<rparr> = ss" by simp
    then show ?thesis by (simp only: rf)
  qed
  define ss1 where "ss1 = ss\<lparr>inputStream := avail, readRequests := readRequests ss @ [4]\<rparr>"
  have sr: "stream_read HEADER_LENGTH ss = (Some [t, f, hi, lo], ss1)"
    by (simp add: stream_read_def inp HEADER_LENGTH_def ss1_def)
  have m1: "mode ss1 = Some m" by (simp add: ss1_def m)
  have ign: "(case TYPE_TO_STRING t of None \<Rightarrow> Ignore
              | Some ty \<Rightarrow> if VALID_TYPES m (TYPE_TO_STRING t) then Type ty else Ignore) = Ignore"
    using inv by (cases "TYPE_TO_STRING t") simp_all
  have rh: "readHeader fb ss =
      (if len > 0
       then readTrailer fb (ss1\<lparr>trailerType := Some Ignore, trailerLength := len,
                                  readFunc := ReadTrailer\<rparr>)
       else Inr (True, ss1\<lparr>trailerType := None, trailerLength := 0\<rparr>))"
    by (simp add: readHeader_def sr m1 ty ign len [symmetric] Let_def)
  show ?thesis
  proof (cases "len = 0")
    case True
    have "ss1\<lparr>trailerType := None, trailerLength := 0\<rparr> = after_frame ss avail [HEADER_LENGTH]"
      using rf by (intro session.equality) (simp_all add: after_frame_def ss1_def HEADER_LENGTH_def)
    then show ?thesis
      using True rf by (simp add: readFunc_call_def rh)
  next
    case False
    then show ?thesis
      using rf
      by (simp add: readFunc_call_def rh readTrailer_def stream_read_def ss1_def
          after_frame_def awaiting_trailer_def HEADER_LENGTH_def Let_def)
  qed
qed


text \<open>
  In each of the three states of the legality table the draining works.  Let the
  session be about to read a header, and let the next four bytes \<open>t f hi lo\<close> on
  the wire have a type byte that is unknown or not legal in that state; the frame
  then occupies these four bytes and \<open>len = 256 * hi + lo\<close> more, plus 65536 when
  bit 7 of \<open>f\<close> is set.  A call of the read function throws nothing and changes
  only the parser fields: with the whole trailer buffered it consumes the header and
  exactly \<open>len\<close> bytes and is back at reading headers, so that the input stream
  starts with the first byte behind the frame; with less buffered it consumes the
  header and waits.  In that waiting state (whatever else happened to the session
  meanwhile) a call consumes nothing until \<open>len\<close> bytes are buffered, and then
  exactly that many, returning to the header phase.  No handler runs, so the trace,
  the mode and the socket are as before.
\<close>

lemma unexpected_frame_drained:
  assumes "mode ss = Some m" and "readFunc ss = ReadHeader"
    and "\<not> VALID_TYPES m (TYPE_TO_STRING t)"
    and "len = unat hi * 256 + unat lo + (if f AND 0x80 \<noteq> 0 then 65536 else 0)"
    and "inputStream ss = [t, f, hi, lo] @ avail"
  shows "readFunc_call fb ss =
           (if len = 0 then Inr (True, after_frame ss avail [HEADER_LENGTH])
            else if length avail < len then Inr (False, awaiting_trailer ss avail len)
            else Inr (True, after_frame ss (drop len avail) [HEADER_LENGTH, len]))
         \<and> (\<forall>s. readFunc s = ReadTrailer \<and> trailerType s = Some Ignore
                  \<and> trailerLength s = len \<and> 0 < len \<longrightarrow>
                readFunc_call fb s =
                  (if length (inputStream s) < len
                   then Inr (False, s\<lparr>readRequests := readRequests s @ [len]\<rparr>)
                   else Inr (True, after_frame s (drop len (inputStream s)) [len])))"
  using ignore_header_phase [OF assms, of fb] ignore_trailer_phase [of _ len fb]
  by blast

text \<open>
  A retarget response with a two-byte trailer, received while the session waits for a
  call request: read at once, and read in two steps when the trailer arrives late.
\<close>

lemma unexpected_frame_drained_example:
  "readFunc_call fromBuffer_any retarget_then_request =
       Inr (True, after_frame retarget_then_request [0x81, 0, 0, 1, 7] [4, 2])
   \<and> trace (after_frame retarget_then_request [0x81, 0, 0, 1, 7] [4, 2]) = []
   \<and> readFunc_call fromBuffer_any (awaiting_trailer retarget_then_request [9] 2) =
       Inr (False, (awaiting_trailer retarget_then_request [9] 2)
                     \<lparr>readRequests := [4, 2, 2]\<rparr>)
   \<and> readFunc_call fromBuffer_any
         (socket_data [9, 0x81] (awaiting_trailer retarget_then_request [9] 2)) =
       Inr (True, after_frame
                    (socket_data [9, 0x81] (awaiting_trailer retarget_then_request [9] 2))
                    [0x81] [2])"
proof -
  have h1: "mode retarget_then_request = Some EstablishingIn"
    and h2: "readFunc retarget_then_request = ReadHeader"
    and h5: "inputStream retarget_then_request = [0x84, 0, 0, 2] @ [9, 9, 0x81, 0, 0, 1, 7]"
    and tr: "trace (after_frame retarget_then_request [0x81, 0, 0, 1, 7] [4, 2]) = []"
    and rq: "readRequests retarget_then_request = []"
    by (simp_all add: retarget_then_request_def after_frame_def session_defs)
  have h3: "\<not> VALID_TYPES EstablishingIn (TYPE_TO_STRING 0x84)"
    by (simp add: TYPE_TO_STRING_def)
  have h4: "(2::nat) = unat (0::byte) * 256 + unat (2::byte)
      + (if (0::byte) AND 0x80 \<noteq> 0 then 65536 else 0)"
    by simp
  note t = unexpected_frame_drained [OF h1 h2 h3 h4 h5, of fromBuffer_any]
  from t have a: "readFunc_call fromBuffer_any retarget_then_request =
       Inr (True, after_frame retarget_then_request [0x81, 0, 0, 1, 7] [4, 2])"
    by (simp add: HEADER_LENGTH_def)
  from t have w: "readFunc s = ReadTrailer \<and> trailerType s = Some Ignore
      \<and> trailerLength s = 2 \<and> (0::nat) < 2 \<longrightarrow>
      readFunc_call fromBuffer_any s =
        (if length (inputStream s) < 2
         then Inr (False, s\<lparr>readRequests := readRequests s @ [2]\<rparr>)
         else Inr (True, after_frame s (drop 2 (inputStream s)) [2]))" for s
    by blast
  have b: "readFunc_call fromBuffer_any (awaiting_trailer retarget_then_request [9] 2) =
       Inr (False, (awaiting_trailer retarget_then_request [9] 2)
                     \<lparr>readRequests := [4, 2, 2]\<rparr>)"
    using w [of "awaiting_trailer retarget_then_request [9] 2"]
    by (simp add: awaiting_trailer_def rq HEADER_LENGTH_def)
  have c: "readFunc_call fromBuffer_any
         (socket_data [9, 0x81] (awaiting_trailer retarget_then_request [9] 2)) =
       Inr (True, after_frame
                    (socket_data [9, 0x81] (awaiting_trailer retarget_then_request [9] 2))
                    [0x81] [2])"
    using w [of "socket_data [9, 0x81] (awaiting_trailer retarget_then_request [9] 2)"]
    by (simp add: awaiting_trailer_def socket_data_def)
  from tr a b c show ?thesis by blast
qed

text \<open>
  Once the session has ended, \<^verbatim>\<open>ss.mode\<close> is \<^verbatim>\<open>null\<close>, the legality table has no row
  for it, and \<^verbatim>\<open>VALID_TYPES[ss.mode][type]\<close> indexes undefined: whatever header is
  buffered, \<^verbatim>\<open>_readHeader\<close> consumes it and throws.
\<close>

lemma readHeader_without_mode:
  assumes "mode ss = None" and "4 \<le> length (inputStream ss)"
  shows "readHeader fb ss =
     Inl (TypeError, ss\<lparr>inputStream := drop 4 (inputStream ss),
                          readRequests := readRequests ss @ [4]\<rparr>)"
  using assms by (simp add: readHeader_def stream_read_def HEADER_LENGTH_def)

text \<open>
  Claim C3.  The claim fails for a frame that arrives after the session has ended,
  while the read pump is still running.  \<^verbatim>\<open>end()\<close> sets \<^verbatim>\<open>ss.mode\<close> to \<^verbatim>\<open>null\<close>
  and leaves the input stream and the queued \<^verbatim>\<open>_doRead\<close> in place.  In the first
  run the attach callback rejects the call, which ends the session, and the peer has
  sent a frame with the unknown type byte \<open>77\<close> and length 0 behind its call
  request; in the second the application ends an established session and the same
  frame arrives.  In both, the next \<^verbatim>\<open>_doRead\<close> reads the four bytes and throws a
  \<^verbatim>\<open>TypeError\<close> out of the event loop instead of dropping the frame.  In the three
  states of the legality table the frame is drained as claimed
  (\<open>unexpected_frame_drained\<close> above).
\<close>

theorem frame_after_end_throws:
  "TYPE_TO_STRING 0x77 = None
   \<and> run fromBuffer_any [Tick, SocketData (request_frame @ [0x77, 0, 0, 0]), Tick, Tick]
       (attach [] (Some (RejectNow None)) (NetbiosSession default_opts never_pause))
     = Inl (TypeError,
         (NetbiosSession default_opts never_pause)
           \<lparr>attachCallback := Some (RejectNow None),
            requests := [\<lparr>callTo = fromBuffer_any [1, 2] 0, callFrom = fromBuffer_any [1, 2] 1,
                          accept = False, reject = False\<rparr>],
            readRequests := [4, 4, 2, 4],
            trace := [AttachCallbackRequest (fromBuffer_any [1, 2] 0) (fromBuffer_any [1, 2] 1),
                      SocketWrite [0x83, 0, 0, 1, 0x8f] True, SocketEnd]\<rparr>)
   \<and> run fromBuffer_any [Tick, CallEnd, SocketData [0x77, 0, 0, 0], Tick] (direct_session [])
     = Inl (TypeError,
         (NetbiosSession (default_opts\<lparr>opt_direct := True\<rparr>) never_pause)
           \<lparr>readRequests := [4, 4], trace := [EmitConnect, SocketEnd]\<rparr>)"
  by (simp add: request_frame_def direct_session_def session_defs)

subsection \<open>C2: chunking of large writes\<close>



lemma packHeader_Message:
  assumes "n \<le> MAX_TRAILER_LENGTH"
  obtains hdr where "packHeader Message (int n) = Inr hdr" and "length hdr = 4"
    and "decodeHeader hdr = (Some Message, n)"
  using decodeHeader_packHeader [of "int n" Message] assms
  by (auto simp: HEADER_LENGTH_def)


lemma MAX_TRAILER_LENGTH_value: "MAX_TRAILER_LENGTH = 131071"
  by (simp add: MAX_TRAILER_LENGTH_def)











subsection \<open>C8: the contract of write\<close>

lemma socket_write_bound:
  assumes "socket ss"
  shows "socket_write buf ss =
     Inr (next_flush (flushPlan ss),
          ss\<lparr>flushPlan := tl (flushPlan ss),
             trace := trace ss @ [SocketWrite buf (next_flush (flushPlan ss))]\<rparr>)"
  using assms by (simp add: socket_write_def Let_def)

lemma trace_doDrain: "trace (doDrain cb ss) = trace ss @ drained_effects cb ss"
  by (simp add: doDrain_def drained_effects_def log_def Let_def split: option.splits)

lemma doDrain_other:
  "drainListeners (doDrain cb ss) = drainListeners ss" "socket (doDrain cb ss) = socket ss"
  "flushPlan (doDrain cb ss) = flushPlan ss"
  by (simp_all add: doDrain_def log_def Let_def split: option.splits)

lemma writeMsg_bound:
  assumes "socket ss"
  shows "\<exists>ss'. writeMsg msg cb ss = Inr (next_flush (flushPlan ss), ss')
     \<and> trace ss' = trace ss @ SocketWrite msg (next_flush (flushPlan ss))
           # (if next_flush (flushPlan ss) then drained_effects cb ss else [])
     \<and> drainListeners ss' = drainListeners ss
           @ (if next_flush (flushPlan ss) then [] else [DrainDoDrain cb])"
  by (simp add: writeMsg_def socket_write_bound [OF assms] trace_doDrain doDrain_other
      drained_effects_def)

text \<open>
  Without an \<^verbatim>\<open>'error'\<close> listener the emitter throws the error at the caller of
  \<^verbatim>\<open>write\<close>, and a write on a session that is not bound throws as well.
\<close>

lemma write_unheard:
  "131071 < length msg \<Longrightarrow> \<not> errorListener ss \<Longrightarrow>
   session_write msg cb ss = Inl (Unhandled (MessageTooLong (length msg)), ss)"
  by (simp add: session_write_def emit_error_def MAX_TRAILER_LENGTH_value)

lemma write_heard:
  "131071 < length msg \<Longrightarrow> errorListener ss \<Longrightarrow>
   session_write msg cb ss =
     Inr (True, ss\<lparr>trace := trace ss @ EmitError (MessageTooLong (length msg))
            # (case cb of Some k \<Rightarrow> [NextTick k (Some (MessageTooLong (length msg)))]
               | None \<Rightarrow> [])\<rparr>)"
  by (simp add: session_write_def emit_error_def MAX_TRAILER_LENGTH_value log_def Let_def
      split: option.splits)

lemma write_unbound:
  assumes "length msg \<le> 131071" and "\<not> socket ss"
  shows "session_write msg cb ss = Inl (TypeError, ss)"
proof -
  have le: "length msg \<le> MAX_TRAILER_LENGTH"
    using assms(1) by (simp add: MAX_TRAILER_LENGTH_value)
  then obtain hdr where "packHeader Message (int (length msg)) = Inr hdr"
    using packHeader_Message by blast
  then show ?thesis
    using le assms(2) by (simp add: session_write_def socket_write_def)
qed

lemma write_bound:
  assumes a: "length msg \<le> 131071" and sock: "socket ss"
  shows "\<exists>hdr ss'. packHeader Message (int (length msg)) = Inr hdr
         \<and> decodeHeader hdr = (Some Message, length msg)
         \<and> session_write msg cb ss
             = Inr (next_flush (flushPlan ss) \<and> next_flush (tl (flushPlan ss)), ss')
         \<and> trace ss' = trace ss @ SocketWrite hdr (next_flush (flushPlan ss))
             # (if next_flush (flushPlan ss)
                then SocketWrite msg (next_flush (tl (flushPlan ss)))
                  # (if next_flush (tl (flushPlan ss)) then drained_effects cb ss else [])
                else [])
         \<and> drainListeners ss' = drainListeners ss
             @ (if \<not> next_flush (flushPlan ss) then [DrainWriteMsg msg cb]
                else if \<not> next_flush (tl (flushPlan ss)) then [DrainDoDrain cb]
                else [])"
proof -
  have le: "length msg \<le> MAX_TRAILER_LENGTH"
    using a by (simp add: MAX_TRAILER_LENGTH_value)
  obtain hdr where hdr: "packHeader Message (int (length msg)) = Inr hdr"
      "decodeHeader hdr = (Some Message, length msg)"
    using packHeader_Message [OF le] by blast
  define ss1 where "ss1 = ss\<lparr>flushPlan := tl (flushPlan ss),
             trace := trace ss @ [SocketWrite hdr (next_flush (flushPlan ss))]\<rparr>"
  have sw: "socket_write hdr ss = Inr (next_flush (flushPlan ss), ss1)"
    using socket_write_bound [OF sock] by (simp add: ss1_def)
  have s1: "socket ss1" "flushPlan ss1 = tl (flushPlan ss)" "needDrain ss1 = needDrain ss"
    "drainListeners ss1 = drainListeners ss"
    "trace ss1 = trace ss @ [SocketWrite hdr (next_flush (flushPlan ss))]"
    using sock by (simp_all add: ss1_def)
  show ?thesis
  proof (cases "next_flush (flushPlan ss)")
    case True
    obtain ss' where w: "writeMsg msg cb ss1 = Inr (next_flush (flushPlan ss1), ss')"
      "trace ss' = trace ss1 @ SocketWrite msg (next_flush (flushPlan ss1))
           # (if next_flush (flushPlan ss1) then drained_effects cb ss1 else [])"
      "drainListeners ss' = drainListeners ss1
           @ (if next_flush (flushPlan ss1) then [] else [DrainDoDrain cb])"
      using writeMsg_bound [OF s1(1), of msg cb] by blast
    have "session_write msg cb ss = writeMsg msg cb ss1"
      using le True by (simp add: session_write_def hdr(1) sw)
    then show ?thesis
      using hdr w True s1 by (auto simp: drained_effects_def)
  next
    case False
    have "session_write msg cb ss =
        Inr (False, ss1\<lparr>needDrain := True,
                 drainListeners := drainListeners ss1 @ [DrainWriteMsg msg cb]\<rparr>)"
      using le False by (simp add: session_write_def hdr(1) sw)
    then show ?thesis
      using hdr False s1 by auto
  qed
qed

lemma drain_writes_payload:
  assumes sock: "socket ss"
  shows "\<exists>ss'. fire_drain [DrainWriteMsg msg cb] ss = Inr ss'
         \<and> trace ss' = trace ss @ SocketWrite msg (next_flush (flushPlan ss))
             # (if next_flush (flushPlan ss) then drained_effects cb ss else [])"
proof -
  obtain ss' where w: "writeMsg msg cb ss = Inr (next_flush (flushPlan ss), ss')"
      "trace ss' = trace ss @ SocketWrite msg (next_flush (flushPlan ss))
           # (if next_flush (flushPlan ss) then drained_effects cb ss else [])"
    using writeMsg_bound [OF sock, of msg cb] by blast
  then show ?thesis by simp
qed

lemma drain_unbound:
  "\<not> socket ss \<Longrightarrow> fire_drain [DrainWriteMsg msg cb] ss = Inl (TypeError, ss)"
  by (simp add: writeMsg_def socket_write_def)

text \<open>
  The claim as stated fails on a session that has no \<^verbatim>\<open>'error'\<close> listener, which is
  every session until the application registers one: there \<^verbatim>\<open>this.emit('error',
  error)\<close> throws the error, so \<^verbatim>\<open>write\<close> neither queues the callback nor returns
  \<^verbatim>\<open>true\<close>.  A session in direct mode, just attached, and a message of 131072 bytes
  with a callback: nothing is added to the trace.
\<close>

theorem oversized_write_throws:
  "session_write (replicate 131072 0) (Some 7) (direct_session [])
     = Inl (Unhandled (MessageTooLong 131072), direct_session [])
   \<and> run fromBuffer_any [CallWrite (replicate 131072 0) (Some 7)] (direct_session [])
     = Inl (Unhandled (MessageTooLong 131072), direct_session [])
   \<and> trace (direct_session []) = [EmitConnect]"
proof -
  have l: "\<not> errorListener (direct_session [])"
    and t: "trace (direct_session []) = [EmitConnect]"
    by (simp_all add: direct_session_def session_defs)
  have "session_write (replicate 131072 0) (Some 7) (direct_session [])
     = Inl (Unhandled (MessageTooLong 131072), direct_session [])"
    using write_unheard [of "replicate 131072 0" "direct_session []" "Some 7"] l by simp
  then show ?thesis
    using t by simp
qed

text \<open>
  Claim C8, as it holds of the code.  For a message longer than 131071 bytes,
  \<^verbatim>\<open>write\<close> on a session with an \<^verbatim>\<open>'error'\<close> listener emits an \<^verbatim>\<open>'error'\<close>
  event, queues the completion callback (when one was supplied) with that error,
  writes nothing to the socket and returns \<^verbatim>\<open>true\<close>; on a session without such a
  listener it throws the error and does nothing else.  For a message of at most 131071
  bytes on a session bound to a socket it writes the header of a message frame of the
  payload's length; when the socket accepts the header it writes the payload at once
  and returns what the socket returned for the payload; when the socket does not
  accept the header it returns \<^verbatim>\<open>false\<close> and has registered a \<^verbatim>\<open>'drain'\<close>
  listener, and that listener writes the payload.  On a session that is not bound to a
  socket the write, and the listener likewise, throws a \<^verbatim>\<open>TypeError\<close> and changes
  nothing.
\<close>

theorem write_contract:
  "(131071 < length msg \<longrightarrow>
      session_write msg cb ss =
        (if errorListener ss
         then Inr (True, ss\<lparr>trace := trace ss @ EmitError (MessageTooLong (length msg))
                # (case cb of Some k \<Rightarrow> [NextTick k (Some (MessageTooLong (length msg)))]
                   | None \<Rightarrow> [])\<rparr>)
         else Inl (Unhandled (MessageTooLong (length msg)), ss)))
   \<and> (length msg \<le> 131071 \<longrightarrow>
      (if socket ss
       then (\<exists>hdr ss'. packHeader Message (int (length msg)) = Inr hdr
         \<and> decodeHeader hdr = (Some Message, length msg)
         \<and> session_write msg cb ss
             = Inr (next_flush (flushPlan ss) \<and> next_flush (tl (flushPlan ss)), ss')
         \<and> trace ss' = trace ss @ SocketWrite hdr (next_flush (flushPlan ss))
             # (if next_flush (flushPlan ss)
                then SocketWrite msg (next_flush (tl (flushPlan ss)))
                  # (if next_flush (tl (flushPlan ss)) then drained_effects cb ss else [])
                else [])
         \<and> drainListeners ss' = drainListeners ss
             @ (if \<not> next_flush (flushPlan ss) then [DrainWriteMsg msg cb]
                else if \<not> next_flush (tl (flushPlan ss)) then [DrainDoDrain cb]
                else []))
       else session_write msg cb ss = Inl (TypeError, ss)))
   \<and> (if socket ss
       then (\<exists>ss'. fire_drain [DrainWriteMsg msg cb] ss = Inr ss'
         \<and> trace ss' = trace ss @ SocketWrite msg (next_flush (flushPlan ss))
             # (if next_flush (flushPlan ss) then drained_effects cb ss else []))
       else fire_drain [DrainWriteMsg msg cb] ss = Inl (TypeError, ss))"
proof (intro conjI)
  show "131071 < length msg \<longrightarrow>
      session_write msg cb ss =
        (if errorListener ss
         then Inr (True, ss\<lparr>trace := trace ss @ EmitError (MessageTooLong (length msg))
                # (case cb of Some k \<Rightarrow> [NextTick k (Some (MessageTooLong (length msg)))]
                   | None \<Rightarrow> [])\<rparr>)
         else Inl (Unhandled (MessageTooLong (length msg)), ss))"
    using write_heard [of msg ss cb] write_unheard [of msg ss cb] by simp
  show "length msg \<le> 131071 \<longrightarrow>
      (if socket ss
       then (\<exists>hdr ss'. packHeader Message (int (length msg)) = Inr hdr
         \<and> decodeHeader hdr = (Some Message, length msg)
         \<and> session_write msg cb ss
             = Inr (next_flush (flushPlan ss) \<and> next_flush (tl (flushPlan ss)), ss')
         \<and> trace ss' = trace ss @ SocketWrite hdr (next_flush (flushPlan ss))
             # (if next_flush (flushPlan ss)
                then SocketWrite msg (next_flush (tl (flushPlan ss)))
                  # (if next_flush (tl (flushPlan ss)) then drained_effects cb ss else [])
                else [])
         \<and> drainListeners ss' = drainListeners ss
             @ (if \<not> next_flush (flushPlan ss) then [DrainWriteMsg msg cb]
                else if \<not> next_flush (tl (flushPlan ss)) then [DrainDoDrain cb]
                else []))
       else session_write msg cb ss = Inl (TypeError, ss))"
  proof (cases "socket ss")
    case True
    then show ?thesis
      using write_bound [of msg ss cb] by simp
  next
    case False
    then show ?thesis
      using write_unbound [of msg ss cb] by simp
  qed
  show "if socket ss
       then (\<exists>ss'. fire_drain [DrainWriteMsg msg cb] ss = Inr ss'
         \<and> trace ss' = trace ss @ SocketWrite msg (next_flush (flushPlan ss))
             # (if next_flush (flushPlan ss) then drained_effects cb ss else []))
       else fire_drain [DrainWriteMsg msg cb] ss = Inl (TypeError, ss)"
  proof (cases "socket ss")
    case True
    then show ?thesis
      using drain_writes_payload [of ss msg cb] by simp
  next
    case False
    then show ?thesis
      using drain_unbound [of ss msg cb] by simp
  qed
qed

theorem write_contract_witness:
  "131071 < length (replicate 131072 (0::byte))
   \<and> session_write (replicate 131072 0) (Some 7) (on_error (direct_session [False, True])) =
       Inr (True, (on_error (direct_session [False, True]))
                    \<lparr>trace := [EmitConnect, EmitError (MessageTooLong 131072),
                                NextTick 7 (Some (MessageTooLong 131072))]\<rparr>)
   \<and> session_write (replicate 131072 0) (Some 7) (direct_session [False, True]) =
       Inl (Unhandled (MessageTooLong 131072), direct_session [False, True])
   \<and> length [1, 2, 3 :: byte] \<le> 131071
   \<and> (\<exists>ss'. session_write [1, 2, 3] (Some 8) (direct_session [False, True]) = Inr (False, ss')
         \<and> trace ss' = [EmitConnect, SocketWrite [0, 0, 0, 3] False]
         \<and> drainListeners ss' = [DrainWriteMsg [1, 2, 3] (Some 8)])
   \<and> (\<exists>ss'. fire_drain [DrainWriteMsg [1, 2, 3] (Some 8)] (direct_session [True]) = Inr ss'
         \<and> trace ss' = [EmitConnect, SocketWrite [1, 2, 3] True, NextTick 8 None])
   \<and> session_write [1, 2, 3] (Some 8) (NetbiosSession default_opts never_pause) =
       Inl (TypeError, NetbiosSession default_opts never_pause)"
proof -
  have s: "socket (direct_session [False, True])"
    "trace (direct_session [False, True]) = [EmitConnect]"
    "flushPlan (direct_session [False, True]) = [False, True]"
    "drainListeners (direct_session [False, True]) = []"
    "\<not> errorListener (direct_session [False, True])"
    by (simp_all add: direct_session_def session_defs)
  have e: "errorListener (on_error (direct_session [False, True]))"
    "trace (on_error (direct_session [False, True])) = [EmitConnect]"
    by (simp_all add: direct_session_def session_defs)
  have hdr: "packHeader Message 3 = Inr [0, 0, 0, 3]"
    by (simp add: session_defs)
  from write_contract [of "replicate 131072 0" "Some 7"
      "on_error (direct_session [False, True])"]
  have big: "session_write (replicate 131072 0) (Some 7)
       (on_error (direct_session [False, True])) =
       Inr (True, (on_error (direct_session [False, True]))
                    \<lparr>trace := [EmitConnect, EmitError (MessageTooLong 131072),
                                NextTick 7 (Some (MessageTooLong 131072))]\<rparr>)"
    by (simp add: e)
  from write_contract [of "replicate 131072 0" "Some 7" "direct_session [False, True]"]
  have unheard: "session_write (replicate 131072 0) (Some 7) (direct_session [False, True]) =
       Inl (Unhandled (MessageTooLong 131072), direct_session [False, True])"
    by (simp add: s)
  from write_contract [of "[1, 2, 3]" "Some 8" "direct_session [False, True]"]
  have small: "\<exists>ss'. session_write [1, 2, 3] (Some 8) (direct_session [False, True])
           = Inr (False, ss')
         \<and> trace ss' = [EmitConnect, SocketWrite [0, 0, 0, 3] False]
         \<and> drainListeners ss' = [DrainWriteMsg [1, 2, 3] (Some 8)]"
    by (simp add: s hdr next_flush_def)
  have s': "socket (direct_session [True])"
    "trace (direct_session [True]) = [EmitConnect]"
    "flushPlan (direct_session [True]) = [True]"
    "needDrain (direct_session [True]) = False"
    by (simp_all add: direct_session_def session_defs)
  from write_contract [of "[1, 2, 3]" "Some 8" "direct_session [True]"]
  have later: "\<exists>ss'. fire_drain [DrainWriteMsg [1, 2, 3] (Some 8)] (direct_session [True])
           = Inr ss'
         \<and> trace ss' = [EmitConnect, SocketWrite [1, 2, 3] True, NextTick 8 None]"
    by (simp add: s' next_flush_def drained_effects_def)
  have n: "\<not> socket (NetbiosSession default_opts never_pause)"
    by (simp add: NetbiosSession_def)
  from write_contract [of "[1, 2, 3]" "Some 8" "NetbiosSession default_opts never_pause"]
  have unbound: "session_write [1, 2, 3] (Some 8) (NetbiosSession default_opts never_pause) =
       Inl (TypeError, NetbiosSession default_opts never_pause)"
    by (simp add: n)
  from big unheard small later unbound show ?thesis by simp
qed

subsection \<open>C9 and C6: accept and reject\<close>









lemma packHeader_NegativeResponse: "packHeader NegativeResponse 1 = Inr [0x83, 0, 0, 1]"
  by (simp add: packHeader_def writeUInt8_def writeUInt16BE_def EXTENSION_LENGTH_def)











lemma pending_request_eval:
  "pending_request =
     (NetbiosSession default_opts never_pause)
       \<lparr>mode := Some EstablishingIn, attachCallback := Some Later, socket := True,
        requests := [\<lparr>callTo = fromBuffer_any [1, 2] 0, callFrom = fromBuffer_any [1, 2] 1,
                      accept = True, reject = True\<rparr>],
        readRequests := [4, 4, 2], ticks := 1,
        trace := [AttachCallbackRequest (fromBuffer_any [1, 2] 0) (fromBuffer_any [1, 2] 1)]\<rparr>"
  by (simp add: pending_request_def request_frame_def session_defs)









text \<open>
  Claim C6.  \<^verbatim>\<open>reject(reason)\<close> sends the frame \<open>83 00 00 01 code\<close>, with the
  table's code for an enumerated reason and \<open>8f\<close> for no reason or a reason that no
  property of the table matches, and ends the socket at once when the write was
  accepted and on \<^verbatim>\<open>'drain'\<close> otherwise: this is \<open>sendNegativeResponse_bound\<close>
  above.  The claim fails for a reason that names a property the table inherits from
  \<^verbatim>\<open>Object.prototype\<close>: the lookup then gives a function, which is truthy, the
  fallback to \<open>8f\<close> is skipped, and \<^verbatim>\<open>writeUInt8\<close> throws on the non-number.
  Nothing is written, the socket stays open and the handles stay callable.
\<close>

theorem reject_inherited_reason_throws:
  "socket pending_request \<and> reject (requests pending_request ! 0)
   \<and> lookup_ERROR_CODE_FROM_STRING (Some ''constructor'') = Inherited
   \<and> request_reject 0 (Some ''constructor'') pending_request
       = Inl (AssertionError, pending_request)
   \<and> trace pending_request
       = [AttachCallbackRequest (fromBuffer_any [1, 2] 0) (fromBuffer_any [1, 2] 1)]"
  by (simp add: pending_request_eval request_reject_def sendNegativeResponse_def
      packHeader_NegativeResponse lookup_ERROR_CODE_FROM_STRING_def ERROR_CODE_FROM_STRING_def
      Object_prototype_def writeUInt8_value_def NetbiosSession_def)

subsection \<open>C5: the default accept policy\<close>

lemma handleRequest_no_callback:
  assumes "attachCallback ss = None" and "error (fb chunk 0) = None"
    and "error (fb chunk (bytesRead (fb chunk 0))) = None"
  shows "handleRequest fb chunk ss = sendPositiveResponse (established ss)"
  using assms by (simp add: handleRequest_def acceptDefault_def Let_def)

text \<open>
  Claim C5.  Without a handshake callback the session should accept a decoded call
  request if and only if the default-accept option was set at construction, as the
  comment in \<^verbatim>\<open>_handleRequest\<close> and the README say.  The code reads
  \<^verbatim>\<open>ss.acceptDefault\<close>, which nothing assigns, and accepts when it is falsy: it
  accepts always (\<open>handleRequest_no_callback\<close>).  Here a session constructed with
  \<^verbatim>\<open>autoAccept\<close> false accepts a call request exactly as one constructed with
  \<^verbatim>\<open>autoAccept\<close> true does.
\<close>

theorem default_policy_always_accepts:
  "autoAccept (NetbiosSession (default_opts\<lparr>opt_autoAccept := False\<rparr>) never_pause) = False
   \<and> mode (unattended False) = Some Established
   \<and> trace (unattended False) = [EmitConnect, SocketWrite [0x82, 0, 0, 0] True]
   \<and> autoAccept (NetbiosSession (default_opts\<lparr>opt_autoAccept := True\<rparr>) never_pause) = True
   \<and> mode (unattended True) = Some Established
   \<and> trace (unattended True) = [EmitConnect, SocketWrite [0x82, 0, 0, 0] True]"
  by (simp add: unattended_def request_frame_def session_defs)

subsection \<open>C7: malformed negative responses\<close>

lemma calling_eval:
  "calling cb = (NetbiosSession default_opts never_pause)
     \<lparr>mode := Some EstablishingOut, connectCallback := cb, socket := True, ticks := 1,
      trace := [SocketWrite [0x81, 0, 0, 2, 2, 1] True]\<rparr>"
  by (simp add: calling_def session_defs)

lemma handleNegativeResponse_malformed:
  assumes "mode ss = Some EstablishingOut" and "2 \<le> length chunk"
  shows "connectCallback ss \<Longrightarrow>
           handleNegativeResponse chunk ss =
             Inr (session_end (log (ConnectCallback (Some MalformedNegativeResponse))
                                (ss\<lparr>connectCallback := False\<rparr>)))"
    and "\<not> connectCallback ss \<Longrightarrow>
           handleNegativeResponse chunk ss = Inr (session_end (ss\<lparr>connectCallback := False\<rparr>))"
  using assms by (auto simp: handleNegativeResponse_def Let_def)

text \<open>
  Claim C7.  A negative response whose trailer is not exactly one byte long should fail
  the connect callback with the malformed-response error and close the transport.
  For two bytes and more the code does so (\<open>handleNegativeResponse_malformed\<close>; with no
  callback it closes as well).  A negative response with an empty trailer never
  reaches \<^verbatim>\<open>_handleNegativeResponse\<close>: \<^verbatim>\<open>_readHeader\<close> handles a zero-length
  frame itself and only looks for a positive response.  The frame is consumed, the
  callback is not called, the socket stays open and the session stays in the
  establishing state.  The second run below is the two-byte case, for comparison.
\<close>

theorem empty_negative_response_ignored:
  "mode (calling True) = Some EstablishingOut \<and> connectCallback (calling True)
   \<and> run fromBuffer_any [Tick, SocketData [0x83, 0, 0, 0], Tick] (calling True)
       = Inr ((calling True)\<lparr>readRequests := [4, 4]\<rparr>)
   \<and> run fromBuffer_any [Tick, SocketData [0x83, 0, 0, 2, 0x80, 0x80], Tick] (calling True)
       = Inr ((calling True)\<lparr>mode := None, connectCallback := False, socket := False,
               readRequests := [4, 4, 2],
               trace := [SocketWrite [0x81, 0, 0, 2, 2, 1] True,
                         ConnectCallback (Some MalformedNegativeResponse), SocketEnd]\<rparr>)"
  by (simp add: calling_eval session_defs)

subsection \<open>C4: pause and resume\<close>

text \<open>
  Claim C4.  After \<^verbatim>\<open>pause()\<close> in the established state no further message should
  be dispatched.  \<^verbatim>\<open>_doRead\<close> tests the pause flag only after it has called the
  read function, so a \<^verbatim>\<open>_doRead\<close> that is already queued, or registered for
  \<^verbatim>\<open>'readable'\<close>, when \<^verbatim>\<open>pause()\<close> is called still reads and dispatches one
  message.  Below, the session is established and paused, a complete message frame is
  buffered, and the queued \<^verbatim>\<open>_doRead\<close> emits it; likewise for a frame that arrives
  after the pause.  The other parts of the claim hold: a pause from inside the message
  listener stops the dispatch until \<^verbatim>\<open>resume()\<close>, which continues in order
  (\<open>pause_in_listener_stops_dispatch\<close>), and a pause before the session is
  established does not stop the handshake (\<open>run_tick_before_established\<close>,
  \<open>paused_handshake_still_drained\<close>).
\<close>

theorem message_dispatched_after_pause:
  "mode accepted_then_paused = Some Established \<and> paused accepted_then_paused
   \<and> inputStream accepted_then_paused = [0, 0, 0, 1, 0x42]
   \<and> trace accepted_then_paused
       = [AttachCallbackRequest (fromBuffer_any [1, 2] 0) (fromBuffer_any [1, 2] 1),
          EmitConnect, SocketWrite [0x82, 0, 0, 0] True, EmitMessage [0x41]]
   \<and> trace (outcome (run fromBuffer_any [Tick] accepted_then_paused))
       = trace accepted_then_paused @ [EmitMessage [0x42]]
   \<and> mode idle_then_paused = Some Established \<and> paused idle_then_paused
   \<and> trace (outcome (run fromBuffer_any [SocketData [0, 0, 0, 1, 0x41], Tick] idle_then_paused))
       = trace idle_then_paused @ [EmitMessage [0x41]]"
  by (simp add: accepted_then_paused_def idle_then_paused_def request_frame_def session_defs)

lemma pause_in_listener_stops_dispatch:
  "trace (outcome (run fromBuffer_any
       [SocketData [0, 0, 0, 1, 0x41, 0, 0, 0, 1, 0x42], Tick, Tick, SocketData [0, 0, 0, 1, 0x43],
        Tick]
       (attach [] None (NetbiosSession (default_opts\<lparr>opt_direct := True\<rparr>) always_pause))))
     = [EmitConnect, EmitMessage [0x41]]"
  "trace (outcome (run fromBuffer_any
       [SocketData [0, 0, 0, 1, 0x41, 0, 0, 0, 1, 0x42], Tick, Tick, CallResume, Tick, CallResume,
        Tick, Tick]
       (attach [] None (NetbiosSession (default_opts\<lparr>opt_direct := True\<rparr>) always_pause))))
     = [EmitConnect, EmitMessage [0x41], EmitMessage [0x42]]"
  by (simp_all add: always_pause_def session_defs)

lemma paused_handshake_still_drained:
  "trace (outcome (run fromBuffer_any [Tick, SocketData request_frame, Tick]
       (attach [] (Some AcceptNow)
          (NetbiosSession (default_opts\<lparr>opt_paused := True\<rparr>) never_pause))))
     = [AttachCallbackRequest (fromBuffer_any [1, 2] 0) (fromBuffer_any [1, 2] 1),
        EmitConnect, SocketWrite [0x82, 0, 0, 0] True]"
  by (simp add: request_frame_def session_defs)

text \<open>
  The same for the constructor option: a session constructed paused and in direct mode
  emits a buffered message on its first read.
\<close>

lemma paused_option_direct_dispatches:
  "paused (attach [] None
       (NetbiosSession (default_opts\<lparr>opt_direct := True, opt_paused := True\<rparr>) never_pause))
   \<and> trace (outcome (run fromBuffer_any [SocketData [0, 0, 0, 1, 0x41], Tick]
       (attach [] None
          (NetbiosSession (default_opts\<lparr>opt_direct := True, opt_paused := True\<rparr>)
             never_pause))))
     = [EmitConnect, EmitMessage [0x41]]"
  by (simp add: session_defs)

lemma run_tick_before_established:
  assumes "0 < ticks ss"
    and "readFunc_call fb (ss\<lparr>ticks := ticks ss - 1\<rparr>) = Inr (complete, s1)"
    and "mode s1 \<noteq> Some Established"
  shows "run_tick fb ss =
     Inr (if complete then doRead s1 else s1\<lparr>readableListeners := readableListeners s1 + 1\<rparr>)"
  using assms by (simp add: run_tick_def)

end
